theory Spec2Isabelle
  imports Complex_Main
begin

section \<open>Data model\<close>

text \<open>
  The development embeds \<^verbatim>\<open>src/data_processor.py\<close> (class \<^verbatim>\<open>DataProcessor\<close>).
  A universe is a Python list of instrument identifiers, a field set a list of field
  names, the request parameters a dictionary (kept as an association list; the default
  \<^verbatim>\<open>{}\<close> is the empty list). A \<^verbatim>\<open>pandas.DataFrame\<close> is kept as the list of its
  rows, the row type being left open: \<^verbatim>\<open>pd.DataFrame()\<close> is the empty list and
  \<^verbatim>\<open>pd.concat([a, b], ignore_index=True)\<close> appends the rows of \<open>b\<close> to those of
  \<open>a\<close>. A universe given as a single \<^verbatim>\<open>str\<close> is outside the model.
\<close>

type_synonym ident = string
type_synonym field = string
type_synonym parameters = "(string \<times> string) list"

text \<open>Python exceptions, with their message.\<close>

datatype exn = Exception string | ValueError string | ZeroDivisionError string

section \<open>The partitioner\<close>

text \<open>
  \<^verbatim>\<open>range(start, stop, step)\<close> for a positive step. The only call of the source has
  \<open>step = max(1, nb_chunks)\<close>, so a step below 1 is never passed (Python raises for 0
  and counts down for a negative step; here the list is empty then).
\<close>

function py_range :: "int \<Rightarrow> int \<Rightarrow> int \<Rightarrow> int list" where
  "py_range start stop step =
     (if 0 < step \<and> start < stop then start # py_range (start + step) stop step else [])"
  by pat_completeness auto
termination
  by (relation "measure (\<lambda>(start, stop, step). nat (stop - start))") auto

declare py_range.simps [simp del]

text \<open>
  The slice \<^verbatim>\<open>items[i:j]\<close> for \<open>0 \<le> i \<le> j\<close>, the only form the source uses; an
  upper bound beyond the end of the list is cut to the length, as in Python.
\<close>

definition py_slice :: "'a list \<Rightarrow> int \<Rightarrow> int \<Rightarrow> 'a list" where
  "py_slice items i j = take (nat j - nat i) (drop (nat i) items)"

text \<open>
  \<^verbatim>\<open>
  def __split_list_into_chunks(self, items, nb_chunks):
      n = max(1, nb_chunks)
      return list(items[i:i+n] for i in range(0, len(items), n))
  \<close>
\<close>

definition split_list_into_chunks :: "'a list \<Rightarrow> int \<Rightarrow> 'a list list" where
  "split_list_into_chunks items nb_chunks =
     (let n = max 1 nb_chunks
      in map (\<lambda>i. py_slice items i (i + n)) (py_range 0 (int (length items)) n))"

section \<open>The backend and the observable effects\<close>

text \<open>
  The Data Library (\<^verbatim>\<open>refinitiv.data\<close>, imported as \<^verbatim>\<open>rd\<close>) is not part of the
  repository: it is a parameter of the model. Its state (session, remote service) has
  an arbitrary type \<open>'s\<close>; each of the three entry points the source uses takes the state
  and returns the new one, together with either its result or the exception it raised.
\<close>

record ('s, 'r) backend =
  get_data :: "'s \<Rightarrow> ident list \<Rightarrow> field list \<Rightarrow> parameters \<Rightarrow> (exn + 'r list) \<times> 's"
  open_session :: "'s \<Rightarrow> exn option \<times> 's"
  close_session :: "'s \<Rightarrow> exn option \<times> 's"

text \<open>
  What a run does besides returning a value, in the order it happens: the calls of
  \<^verbatim>\<open>rd.get_data\<close>, the pauses of \<^verbatim>\<open>time.sleep\<close> (in milliseconds), the lines
  printed (one constructor per \<^verbatim>\<open>print\<close> statement of the source, carrying the values
  it formats; the wall-clock time of a line is left out) and the two calls of
  \<^verbatim>\<open>executor.map\<close> that hand the chunks to a pool.
\<close>

datatype event =
    Get_data "ident list" "field list" parameters
  | Sleep nat
  | Print_batch_requested nat
  | Print_failed_request exn int
  | Print_internal_get_data_exception exn
  | Print_sending_batches int nat
  | Print_ThreadPoolExecutor_exception exn
  | Print_launching_processes nat
  | Print_ProcessPoolExecutor_exception exn
  | Thread_pool_map nat
  | Process_pool_map nat

record 's world =
  session :: 's
  trace :: "event list"

definition emit :: "event list \<Rightarrow> 's world \<Rightarrow> 's world" where
  "emit es w = w\<lparr>trace := trace w @ es\<rparr>"

text \<open>\<^verbatim>\<open>rd.get_data(universe, fields, parameters)\<close>, one attempt.\<close>

definition rd_get_data ::
  "('s, 'r) backend \<Rightarrow> ident list \<Rightarrow> field list \<Rightarrow> parameters \<Rightarrow> 's world
   \<Rightarrow> (exn + 'r list) \<times> 's world" where
  "rd_get_data b universe flds parameters w =
     (case get_data b (session w) universe flds parameters of
        (r, s) \<Rightarrow> (r, emit [Get_data universe flds parameters] (w\<lparr>session := s\<rparr>)))"

text \<open>
  \<^verbatim>\<open>self.__open_session()\<close> (set the request timeout, then \<^verbatim>\<open>rd.open_session()\<close>) and
  \<^verbatim>\<open>self.close()\<close> (\<^verbatim>\<open>rd.close_session()\<close>); \<open>Some e\<close> is the exception raised.
\<close>

definition DataProcessor_open_session ::
  "('s, 'r) backend \<Rightarrow> 's world \<Rightarrow> exn option \<times> 's world" where
  "DataProcessor_open_session b w =
     (case open_session b (session w) of (r, s) \<Rightarrow> (r, w\<lparr>session := s\<rparr>))"

definition DataProcessor_close ::
  "('s, 'r) backend \<Rightarrow> 's world \<Rightarrow> exn option \<times> 's world" where
  "DataProcessor_close b w =
     (case close_session b (session w) of (r, s) \<Rightarrow> (r, w\<lparr>session := s\<rparr>))"

section \<open>The retrying fetcher\<close>

text \<open>
  The loop of \<^verbatim>\<open>internal_get_data\<close>, on its three variables:
  \<^verbatim>\<open>
  while (succeed is False and nb_relaunch_request > 0):
      try:
          res = rd.get_data(universe, fields, parameters)
      except Exception as ex:
          nb_relaunch_request = nb_relaunch_request - 1
          time.sleep(0.2)
          print(f'Failed to execute data request: {ex}\n{nb_relaunch_request} attempt(s) remaining...');
      else:
          succeed = True
  \<close>
  Only \<open>res\<close> is read after the loop.
\<close>

function while_loop ::
  "('s, 'r) backend \<Rightarrow> ident list \<Rightarrow> field list \<Rightarrow> parameters
   \<Rightarrow> 'r list \<Rightarrow> int \<Rightarrow> bool \<Rightarrow> 's world \<Rightarrow> 'r list \<times> 's world" where
  "while_loop b universe flds parameters res nb_relaunch_request succeed w =
     (if \<not> succeed \<and> nb_relaunch_request > 0 then
        (case rd_get_data b universe flds parameters w of
           (Inl ex, w1) \<Rightarrow>
             while_loop b universe flds parameters res (nb_relaunch_request - 1) succeed
               (emit [Sleep 200, Print_failed_request ex (nb_relaunch_request - 1)] w1)
         | (Inr r, w1) \<Rightarrow>
             while_loop b universe flds parameters r nb_relaunch_request True w1)
      else (res, w))"
  by pat_completeness auto
termination
  by (relation "measure (\<lambda>(b, universe, flds, parameters, res, nb, succeed, w).
                   if succeed then 0 else nat nb + 1)") auto

declare while_loop.simps [simp del]

text \<open>
  \<^verbatim>\<open>internal_get_data\<close>. The whole body is inside \<^verbatim>\<open>try ... except Exception\<close>, whose
  handler prints and falls off the end of the function: the result is then Python's
  \<^verbatim>\<open>None\<close>, here \<open>None\<close>; a returned DataFrame is \<open>Some\<close> of its rows. No exception
  leaves the function.
\<close>

definition internal_get_data ::
  "('s, 'r) backend \<Rightarrow> ident list \<Rightarrow> field list \<Rightarrow> parameters \<Rightarrow> bool \<Rightarrow> 's world
   \<Rightarrow> 'r list option \<times> 's world" where
  "internal_get_data b universe flds parameters open_the_session w =
     (case (if open_the_session then DataProcessor_open_session b w else (None, w)) of
        (Some e, w1) \<Rightarrow> (None, emit [Print_internal_get_data_exception e] w1)
      | (None, w1) \<Rightarrow>
          (case while_loop b universe flds parameters [] 5 False
                  (emit [Print_batch_requested (length universe)] w1) of
             (res, w2) \<Rightarrow>
               (case (if open_the_session then DataProcessor_close b w2 else (None, w2)) of
                  (Some e, w3) \<Rightarrow> (None, emit [Print_internal_get_data_exception e] w3)
                | (None, w3) \<Rightarrow> (Some res, w3))))"

section \<open>The fan-out strategies\<close>

text \<open>
  \<^verbatim>\<open>math.ceil(a / b)\<close> on integers, with the \<^verbatim>\<open>ZeroDivisionError\<close> of \<^verbatim>\<open>a / 0\<close>.
  (The source divides in floating point; the quotient is exact far beyond any list
  length, and the model computes on integers.)
\<close>

definition math_ceil_div :: "int \<Rightarrow> int \<Rightarrow> exn + int" where
  "math_ceil_div a b =
     (if b = 0 then Inl (ZeroDivisionError ''division by zero'') else Inr (- ((- a) div b)))"

text \<open>
  \<^verbatim>\<open>ProcessPoolExecutor(max_workers = nb_workers)\<close> of the standard library, for an
  integer argument: a count of zero or less raises \<^verbatim>\<open>ValueError\<close>, otherwise the
  executor's \<^verbatim>\<open>_max_workers\<close> is the argument.
\<close>

definition ProcessPoolExecutor :: "int \<Rightarrow> exn + int" where
  "ProcessPoolExecutor max_workers =
     (if max_workers \<le> 0 then Inl (ValueError ''max_workers must be greater than 0'')
      else Inr max_workers)"

text \<open>
  \<^verbatim>\<open>pd.concat([output_df, result], ignore_index=True)\<close>; pandas drops a \<^verbatim>\<open>None\<close>
  among the objects silently (\<open>output_df\<close> is never \<^verbatim>\<open>None\<close>).
\<close>

definition pd_concat :: "'r list \<Rightarrow> 'r list option \<Rightarrow> 'r list" where
  "pd_concat output_df result = (case result of None \<Rightarrow> output_df | Some r \<Rightarrow> output_df @ r)"

text \<open>
  \<^verbatim>\<open>executor.map(fn, universe_list, ...)\<close>: every chunk is submitted at once and the
  results come back in the order of the chunks. The pool's workers run concurrently; the
  model fixes one schedule, in which the calls take effect one after the other in chunk
  order. The other iterables of the call are constant lists of length \<open>nb_loop\<close>, so
  \<open>fn\<close> is given here with those arguments already applied.
\<close>

fun executor_map :: "('a \<Rightarrow> 'w \<Rightarrow> 'b \<times> 'w) \<Rightarrow> 'a list \<Rightarrow> 'w \<Rightarrow> 'b list \<times> 'w" where
  "executor_map fn [] w = ([], w)"
| "executor_map fn (chunk # chunks) w =
     (case fn chunk w of
        (r, w1) \<Rightarrow> (case executor_map fn chunks w1 of (rs, w2) \<Rightarrow> (r # rs, w2)))"

text \<open>
  The collecting loop shared by the three strategies,
  \<^verbatim>\<open>
  try:
      for result in executor.map(...):
          output_df = pd.concat([output_df, result], ignore_index=True)
  except Exception as e:
      print(...)
  \<close>
  over the outcomes of the calls: \<open>Inl e\<close> is a call that raised \<open>e\<close>, which the
  iteration re-raises at that position, ending the loop with \<open>output_df\<close> as it then is.
\<close>

fun for_result :: "'r list \<Rightarrow> (exn + 'r list option) list \<Rightarrow> exn option \<times> 'r list" where
  "for_result output_df [] = (None, output_df)"
| "for_result output_df (Inl e # results) = (Some e, output_df)"
| "for_result output_df (Inr result # results) = for_result (pd_concat output_df result) results"

text \<open>
  The chunk size each strategy hands to \<^verbatim>\<open>__split_list_into_chunks\<close>. In
  \<^verbatim>\<open>threadPoolExecutor_get_data\<close> it is
  \<^verbatim>\<open>max(math.ceil(len(universe) / executor._max_workers), nb_items_threshold)\<close>; in
  \<^verbatim>\<open>processPoolExecutor_get_data\<close> and \<^verbatim>\<open>hybridPoolExecutor_get_data\<close> the executor
  is built from \<open>nb_workers\<close> first, then
  \<^verbatim>\<open>max(math.ceil(len(universe) / executor._max_workers), nb_items_threshold)\<close> is passed.
  What the constructor or the division raises is outside every \<^verbatim>\<open>try\<close>.
\<close>

definition thread_chunk_size :: "int \<Rightarrow> 'a list \<Rightarrow> int \<Rightarrow> exn + int" where
  "thread_chunk_size max_workers universe nb_items_threshold =
     (case math_ceil_div (int (length universe)) max_workers of
        Inl e \<Rightarrow> Inl e
      | Inr c \<Rightarrow> Inr (max c nb_items_threshold))"

definition process_chunk_size :: "'a list \<Rightarrow> int \<Rightarrow> int \<Rightarrow> exn + int" where
  "process_chunk_size universe nb_items_threshold nb_workers =
     (case ProcessPoolExecutor nb_workers of
        Inl e \<Rightarrow> Inl e
      | Inr max_workers \<Rightarrow>
          (case math_ceil_div (int (length universe)) max_workers of
             Inl e \<Rightarrow> Inl e
           | Inr best_nb_items_threshold \<Rightarrow>
               Inr (max best_nb_items_threshold nb_items_threshold)))"

text \<open>
  \<^verbatim>\<open>threadPoolExecutor_get_data\<close>. \<open>max_workers\<close> is \<^verbatim>\<open>executor._max_workers\<close> of
  \<^verbatim>\<open>ThreadPoolExecutor(max_workers = None)\<close>, a number the platform fixes. The session
  calls are outside the \<^verbatim>\<open>try\<close>, so what they raise leaves the function (\<open>Inl\<close>).
\<close>

definition threadPoolExecutor_get_data ::
  "int \<Rightarrow> ('s, 'r) backend \<Rightarrow> ident list \<Rightarrow> field list \<Rightarrow> parameters \<Rightarrow> int \<Rightarrow> bool
   \<Rightarrow> 's world \<Rightarrow> (exn + 'r list) \<times> 's world" where
  "threadPoolExecutor_get_data max_workers b universe flds parameters nb_items_threshold
     open_the_session w =
     (case (if open_the_session then DataProcessor_open_session b w else (None, w)) of
        (Some e, w1) \<Rightarrow> (Inl e, w1)
      | (None, w1) \<Rightarrow>
          (case thread_chunk_size max_workers universe nb_items_threshold of
             Inl e \<Rightarrow> (Inl e, w1)
           | Inr best_nb_items_threshold \<Rightarrow>
               (let universe_list = split_list_into_chunks universe best_nb_items_threshold;
                    nb_loop = length universe_list;
                    w2 = emit [Print_sending_batches best_nb_items_threshold nb_loop,
                               Thread_pool_map nb_loop] w1
                in case executor_map
                          (\<lambda>chunk. internal_get_data b chunk flds parameters False)
                          universe_list w2 of
                     (results, w3) \<Rightarrow>
                       (case for_result [] (map Inr results) of
                          (raised, output_df) \<Rightarrow>
                            (let w4 = (case raised of
                                         None \<Rightarrow> w3
                                       | Some e \<Rightarrow> emit [Print_ThreadPoolExecutor_exception e] w3)
                             in case (if open_the_session then DataProcessor_close b w4
                                      else (None, w4)) of
                                  (Some e, w5) \<Rightarrow> (Inl e, w5)
                                | (None, w5) \<Rightarrow> (Inr output_df, w5))))))"

text \<open>
  \<^verbatim>\<open>processPoolExecutor_get_data\<close>. With fewer than two chunks it returns
  \<^verbatim>\<open>self.internal_get_data(universe=universe, fields=fields)\<close>, that is with the default
  parameters \<^verbatim>\<open>{}\<close> and without opening a session; otherwise every chunk is fetched
  with \<open>open_the_session = True\<close>.
\<close>

definition processPoolExecutor_get_data ::
  "('s, 'r) backend \<Rightarrow> ident list \<Rightarrow> field list \<Rightarrow> parameters \<Rightarrow> int \<Rightarrow> int
   \<Rightarrow> 's world \<Rightarrow> (exn + 'r list option) \<times> 's world" where
  "processPoolExecutor_get_data b universe flds parameters nb_items_threshold nb_workers w =
     (case process_chunk_size universe nb_items_threshold nb_workers of
        Inl e \<Rightarrow> (Inl e, w)
      | Inr chunk_size \<Rightarrow>
               (let universe_list = split_list_into_chunks universe chunk_size;
                    nb_loop = length universe_list
                in if nb_loop < 2 then
                     (case internal_get_data b universe flds [] False w of
                        (r, w1) \<Rightarrow> (Inr r, w1))
                   else
                     (case executor_map
                             (\<lambda>chunk. internal_get_data b chunk flds parameters True)
                             universe_list
                             (emit [Print_launching_processes nb_loop,
                                    Process_pool_map nb_loop] w) of
                        (results, w2) \<Rightarrow>
                          (case for_result [] (map Inr results) of
                             (raised, output_df) \<Rightarrow>
                               (Inr (Some output_df),
                                (case raised of
                                   None \<Rightarrow> w2
                                 | Some e \<Rightarrow>
                                     emit [Print_ProcessPoolExecutor_exception e] w2))))))"

text \<open>
  \<^verbatim>\<open>hybridPoolExecutor_get_data\<close>. With fewer than two chunks it returns
  \<^verbatim>\<open>self.threadPoolExecutor_get_data(universe, fields, parameters, nb_items_threshold)\<close>;
  otherwise every chunk goes to \<^verbatim>\<open>threadPoolExecutor_get_data\<close> in a child process, with
  \<open>open_the_session = True\<close>. A child that raises ends the collecting loop.
\<close>

definition hybridPoolExecutor_get_data ::
  "int \<Rightarrow> ('s, 'r) backend \<Rightarrow> ident list \<Rightarrow> field list \<Rightarrow> parameters \<Rightarrow> int \<Rightarrow> int
   \<Rightarrow> 's world \<Rightarrow> (exn + 'r list) \<times> 's world" where
  "hybridPoolExecutor_get_data thread_workers b universe flds parameters nb_items_threshold
     nb_workers w =
     (case process_chunk_size universe nb_items_threshold nb_workers of
        Inl e \<Rightarrow> (Inl e, w)
      | Inr chunk_size \<Rightarrow>
               (let universe_list = split_list_into_chunks universe chunk_size;
                    nb_loop = length universe_list
                in if nb_loop < 2 then
                     threadPoolExecutor_get_data thread_workers b universe flds parameters
                       nb_items_threshold False w
                   else
                     (case executor_map
                             (\<lambda>chunk. threadPoolExecutor_get_data thread_workers b chunk flds
                                         parameters nb_items_threshold True)
                             universe_list
                             (emit [Print_launching_processes nb_loop,
                                    Process_pool_map nb_loop] w) of
                        (results, w2) \<Rightarrow>
                          (case for_result [] (map (map_sum id Some) results) of
                             (raised, output_df) \<Rightarrow>
                               (Inr output_df,
                                (case raised of
                                   None \<Rightarrow> w2
                                 | Some e \<Rightarrow>
                                     emit [Print_ProcessPoolExecutor_exception e] w2))))))"

section \<open>Notions used to state the properties\<close>

text \<open>
  The outcomes of \<open>n\<close> successive calls of \<^verbatim>\<open>rd.get_data\<close> with the same arguments,
  the first in state \<open>s\<close>: what the attempts of one fetch meet.
\<close>

fun attempts ::
  "('s, 'r) backend \<Rightarrow> ident list \<Rightarrow> field list \<Rightarrow> parameters \<Rightarrow> nat \<Rightarrow> 's
   \<Rightarrow> (exn + 'r list) list" where
  "attempts b universe flds parameters 0 s = []"
| "attempts b universe flds parameters (Suc n) s =
     (case get_data b s universe flds parameters of
        (r, s1) \<Rightarrow> r # attempts b universe flds parameters n s1)"

text \<open>
  What a run of failed attempts leaves in the trace: per attempt the call, the pause of
  200 ms and the printed line with the exception and the attempts that remain.
\<close>

fun failed_attempts ::
  "ident list \<Rightarrow> field list \<Rightarrow> parameters \<Rightarrow> exn list \<Rightarrow> int \<Rightarrow> event list" where
  "failed_attempts universe flds parameters [] remaining = []"
| "failed_attempts universe flds parameters (ex # exs) remaining =
     [Get_data universe flds parameters, Sleep 200, Print_failed_request ex (remaining - 1)]
     @ failed_attempts universe flds parameters exs (remaining - 1)"

fun is_Get_data :: "event \<Rightarrow> bool" where
  "is_Get_data (Get_data universe flds parameters) = True"
| "is_Get_data e = False"

definition get_data_calls :: "event list \<Rightarrow> nat" where
  "get_data_calls tr = length (filter is_Get_data tr)"

fun is_Process_pool_map :: "event \<Rightarrow> bool" where
  "is_Process_pool_map (Process_pool_map n) = True"
| "is_Process_pool_map e = False"

definition process_pool_maps :: "event list \<Rightarrow> nat" where
  "process_pool_maps tr = length (filter is_Process_pool_map tr)"

text \<open>A backend whose session can always be opened and closed.\<close>

definition session_calls_succeed :: "('s, 'r) backend \<Rightarrow> bool" where
  "session_calls_succeed b =
     (\<forall>s. fst (open_session b s) = None \<and> fst (close_session b s) = None)"

text \<open>The state in which the first attempt of \<^verbatim>\<open>internal_get_data\<close> is made.\<close>

definition start_state :: "('s, 'r) backend \<Rightarrow> bool \<Rightarrow> 's \<Rightarrow> 's" where
  "start_state b open_the_session s = (if open_the_session then snd (open_session b s) else s)"

text \<open>The rows a fetch contributes: those returned, none when the call raised.\<close>

definition rows_of :: "exn + 'r list \<Rightarrow> 'r list" where
  "rows_of outcome = (case outcome of Inl e \<Rightarrow> [] | Inr rows \<Rightarrow> rows)"

text \<open>
  A test double for the Data Library. Its state counts the calls of \<^verbatim>\<open>get_data\<close>;
  the first \<open>k\<close> calls raise, and so does every call whose universe contains an
  identifier of the list \<open>bad\<close>; any other call returns one row per identifier, the
  identifier paired with the requested fields. Sessions always open and close.
\<close>

definition fake_backend :: "nat \<Rightarrow> ident list \<Rightarrow> (nat, ident \<times> field list) backend" where
  "fake_backend k bad =
     \<lparr>get_data = (\<lambda>s universe flds parameters.
          (if s < k then Inl (Exception ''timeout'')
           else if filter (\<lambda>i. i \<in> set bad) universe = []
                then Inr (map (\<lambda>i. (i, flds)) universe)
                else Inl (Exception ''unknown instrument''),
           Suc s)),
      open_session = (\<lambda>s. (None, s)),
      close_session = (\<lambda>s. (None, s))\<rparr>"

text \<open>
  A second test double, whose rows record the parameters of the request as well: one
  row per identifier, the identifier with the requested fields and the parameters. It
  never fails.
\<close>

definition parameter_backend :: "(nat, ident \<times> field list \<times> parameters) backend" where
  "parameter_backend =
     \<lparr>get_data = (\<lambda>s universe flds parameters.
          (Inr (map (\<lambda>i. (i, flds, parameters)) universe), Suc s)),
      open_session = (\<lambda>s. (None, s)),
      close_session = (\<lambda>s. (None, s))\<rparr>"

definition initial_world :: "nat world" where
  "initial_world = \<lparr>session = 0, trace = []\<rparr>"

section \<open>Properties of the partitioner\<close>

lemma py_range_stop: "stop \<le> start \<Longrightarrow> py_range start stop step = []"
  by (simp add: py_range.simps)

lemma py_range_step:
  "0 < step \<Longrightarrow> start < stop \<Longrightarrow>
   py_range start stop step = start # py_range (start + step) stop step"
  by (subst py_range.simps) simp

lemma concat_slices_from:
  assumes "0 < n" and "0 \<le> k"
  shows "concat (map (\<lambda>i. py_slice items i (i + n)) (py_range k (int (length items)) n))
         = drop (nat k) items"
  using assms
proof (induction k "int (length items)" n rule: py_range.induct)
  case (1 start step)
  show ?case
  proof (cases "start < int (length items)")
    case True
    have sl: "py_slice items start (start + step) = take (nat step) (drop (nat start) items)"
      using "1.prems" by (simp add: py_slice_def nat_add_distrib)
    have ih: "concat (map (\<lambda>i. py_slice items i (i + step))
                (py_range (start + step) (int (length items)) step))
              = drop (nat (start + step)) items"
      using "1.hyps" "1.prems" True by simp
    have dr: "drop (nat (start + step)) items = drop (nat step) (drop (nat start) items)"
      using "1.prems" by (simp add: nat_add_distrib add.commute)
    have "concat (map (\<lambda>i. py_slice items i (i + step))
                (py_range start (int (length items)) step))
          = py_slice items start (start + step)
            @ concat (map (\<lambda>i. py_slice items i (i + step))
                (py_range (start + step) (int (length items)) step))"
      using True "1.prems" by (simp add: py_range_step)
    also have "\<dots> = take (nat step) (drop (nat start) items)
                     @ drop (nat step) (drop (nat start) items)"
      by (simp only: sl ih dr)
    also have "\<dots> = drop (nat start) items"
      by (rule append_take_drop_id)
    finally show ?thesis .
  next
    case False
    with "1.prems" show ?thesis
      by (simp add: py_range_stop)
  qed
qed

lemma concat_split: "concat (split_list_into_chunks items nb_chunks) = items"
  using concat_slices_from [of "max 1 nb_chunks" 0 items]
  by (simp add: split_list_into_chunks_def Let_def)

lemma split_Nil [simp]: "split_list_into_chunks [] nb_chunks = []"
  by (simp add: split_list_into_chunks_def Let_def py_range_stop)

lemma slices_butlast_length:
  assumes "0 < n" and "0 \<le> k"
  shows "\<forall>c \<in> set (butlast (map (\<lambda>i. py_slice items i (i + n))
                                 (py_range k (int (length items)) n))).
           int (length c) = n"
  using assms
proof (induction k "int (length items)" n rule: py_range.induct)
  case (1 start step)
  show ?case
  proof (cases "start < int (length items)")
    case False
    then show ?thesis by (simp add: py_range_stop)
  next
    case True
    note ih = "1.hyps" [OF conjI [OF "1.prems"(1) True] "1.prems"(1)]
    have ih': "\<forall>c \<in> set (butlast (map (\<lambda>i. py_slice items i (i + step))
                 (py_range (start + step) (int (length items)) step))). int (length c) = step"
      using ih "1.prems" by simp
    show ?thesis
    proof (cases "start + step < int (length items)")
      case False
      then have "py_range (start + step) (int (length items)) step = []"
        by (simp add: py_range_stop)
      with True "1.prems" show ?thesis
        by (simp add: py_range_step)
    next
      case more: True
      then have ne: "py_range (start + step) (int (length items)) step \<noteq> []"
        using "1.prems" by (simp add: py_range_step)
      have len: "int (length (py_slice items start (start + step))) = step"
        using more "1.prems" by (simp add: py_slice_def nat_add_distrib)
      have eq: "py_range start (int (length items)) step
                  = start # py_range (start + step) (int (length items)) step"
        using True "1.prems" by (rule_tac py_range_step) simp_all
      show ?thesis
        using ne ih' len by (simp add: eq)
    qed
  qed
qed

lemma split_butlast_length:
  "\<forall>c \<in> set (butlast (split_list_into_chunks items nb_chunks)).
     int (length c) = max 1 nb_chunks"
  using slices_butlast_length [of "max 1 nb_chunks" 0 items]
  by (simp add: split_list_into_chunks_def Let_def)

text \<open>
  Claim C4. Whatever the chunk size passed, the chunks returned by
  \<^verbatim>\<open>__split_list_into_chunks\<close>, concatenated in order, give back the universe: they are
  contiguous, do not overlap and cover every item once, in the original order.
\<close>

theorem split_list_into_chunks_concat:
  "concat (split_list_into_chunks items nb_chunks) = items"
  using concat_slices_from [of "max 1 nb_chunks" 0 items]
  by (simp add: split_list_into_chunks_def Let_def)

section \<open>Properties of the retrying fetcher and of the strategies\<close>

lemma trace_emit [simp]: "trace (emit es w) = trace w @ es"
  by (simp add: emit_def)

lemma session_emit [simp]: "session (emit es w) = session w"
  by (simp add: emit_def)

lemma while_loop_stop:
  "succeed \<or> nb \<le> 0 \<Longrightarrow> while_loop b u f p res nb succeed w = (res, w)"
  by (subst while_loop.simps) auto

lemma while_loop_fail:
  assumes "0 < nb" and "get_data b (session w) u f p = (Inl ex, s)"
  shows "while_loop b u f p res nb False w =
         while_loop b u f p res (nb - 1) False
           (emit [Get_data u f p, Sleep 200, Print_failed_request ex (nb - 1)]
              (w\<lparr>session := s\<rparr>))"
  using assms by (subst while_loop.simps) (simp add: rd_get_data_def emit_def)

lemma while_loop_success:
  assumes "0 < nb" and "get_data b (session w) u f p = (Inr r, s)"
  shows "while_loop b u f p res nb False w = (r, emit [Get_data u f p] (w\<lparr>session := s\<rparr>))"
  using assms by (subst while_loop.simps) (simp add: rd_get_data_def while_loop_stop)

lemma attempts_nat_pos:
  "0 < nb \<Longrightarrow> attempts b u f p (nat nb) s =
     (case get_data b s u f p of (r, s1) \<Rightarrow> r # attempts b u f p (nat (nb - 1)) s1)"
proof -
  assume "0 < nb"
  then have "nat nb = Suc (nat (nb - 1))" by simp
  then show ?thesis by (simp only: attempts.simps)
qed

lemma while_loop_all_fail:
  "attempts b u f p (nat nb) (session w) = map Inl exs \<Longrightarrow>
   fst (while_loop b u f p res nb False w) = res \<and>
   trace (snd (while_loop b u f p res nb False w)) = trace w @ failed_attempts u f p exs nb"
proof (induction exs arbitrary: nb w)
  case Nil
  then have "nb \<le> 0"
    by (cases "0 < nb") (simp_all add: attempts_nat_pos split: prod.splits)
  then show ?case by (simp add: while_loop_stop)
next
  case (Cons ex exs)
  then have pos: "0 < nb" by (cases "0 < nb") simp_all
  obtain r s where g: "get_data b (session w) u f p = (r, s)" by (cases "get_data b (session w) u f p")
  with Cons.prems pos have r: "r = Inl ex" and rest: "attempts b u f p (nat (nb - 1)) s = map Inl exs"
    by (simp_all add: attempts_nat_pos)
  let ?w = "emit [Get_data u f p, Sleep 200, Print_failed_request ex (nb - 1)] (w\<lparr>session := s\<rparr>)"
  have "attempts b u f p (nat (nb - 1)) (session ?w) = map Inl exs"
    using rest by simp
  from Cons.IH [OF this] show ?case
    using pos g r by (simp add: while_loop_fail)
qed

lemma while_loop_first_success:
  "attempts b u f p (nat nb) (session w) = map Inl exs @ Inr r # rest \<Longrightarrow>
   fst (while_loop b u f p res nb False w) = r \<and>
   trace (snd (while_loop b u f p res nb False w))
     = trace w @ failed_attempts u f p exs nb @ [Get_data u f p]"
proof (induction exs arbitrary: nb w)
  case Nil
  then have pos: "0 < nb" by (cases "0 < nb") simp_all
  obtain r' s where g: "get_data b (session w) u f p = (r', s)" by (cases "get_data b (session w) u f p")
  with Nil pos have "r' = Inr r" by (simp add: attempts_nat_pos)
  with g pos show ?case by (simp add: while_loop_success)
next
  case (Cons ex exs)
  then have pos: "0 < nb" by (cases "0 < nb") simp_all
  obtain r' s where g: "get_data b (session w) u f p = (r', s)" by (cases "get_data b (session w) u f p")
  with Cons.prems pos have r: "r' = Inl ex"
    and rest: "attempts b u f p (nat (nb - 1)) s = map Inl exs @ Inr r # rest"
    by (simp_all add: attempts_nat_pos)
  let ?w = "emit [Get_data u f p, Sleep 200, Print_failed_request ex (nb - 1)] (w\<lparr>session := s\<rparr>)"
  have "attempts b u f p (nat (nb - 1)) (session ?w) = map Inl exs @ Inr r # rest"
    using rest by simp
  from Cons.IH [OF this] show ?case
    using pos g r by (simp add: while_loop_fail)
qed

lemma while_loop_calls_aux:
  "nat nb = n \<Longrightarrow>
   get_data_calls (trace (snd (while_loop b u f p res nb False w)))
   \<le> get_data_calls (trace w) + n"
proof (induction n arbitrary: nb res w)
  case 0
  then show ?case by (simp add: while_loop_stop)
next
  case (Suc n)
  then have pos: "0 < nb" and n: "nat (nb - 1) = n" by simp_all
  obtain r s where g: "get_data b (session w) u f p = (r, s)"
    by (cases "get_data b (session w) u f p")
  show ?case
  proof (cases r)
    case (Inl ex)
    let ?w = "emit [Get_data u f p, Sleep 200, Print_failed_request ex (nb - 1)]
                (w\<lparr>session := s\<rparr>)"
    have step: "while_loop b u f p res nb False w = while_loop b u f p res (nb - 1) False ?w"
      using pos g Inl by (simp add: while_loop_fail)
    have "get_data_calls (trace (snd (while_loop b u f p res (nb - 1) False ?w)))
          \<le> get_data_calls (trace ?w) + n"
      by (rule Suc.IH [OF n])
    moreover have "get_data_calls (trace ?w) = Suc (get_data_calls (trace w))"
      by (simp add: get_data_calls_def)
    ultimately show ?thesis
      by (simp add: step)
  next
    case (Inr rows)
    with pos g show ?thesis
      by (simp add: while_loop_success get_data_calls_def)
  qed
qed

lemma while_loop_calls:
  "get_data_calls (trace (snd (while_loop b u f p res nb False w)))
   \<le> get_data_calls (trace w) + nat nb"
  by (rule while_loop_calls_aux) simp

lemma DataProcessor_close_trace [simp]: "trace (snd (DataProcessor_close b w)) = trace w"
  by (simp add: DataProcessor_close_def split: prod.splits)

lemma DataProcessor_open_session_trace [simp]:
  "trace (snd (DataProcessor_open_session b w)) = trace w"
  by (simp add: DataProcessor_open_session_def split: prod.splits)

lemma open_session_ok:
  "session_calls_succeed b \<Longrightarrow>
   DataProcessor_open_session b w = (None, w\<lparr>session := snd (open_session b (session w))\<rparr>)"
  by (simp add: session_calls_succeed_def DataProcessor_open_session_def split: prod.splits)
     (metis fst_conv)

lemma close_ok:
  "session_calls_succeed b \<Longrightarrow> fst (DataProcessor_close b w) = None"
  by (simp add: session_calls_succeed_def DataProcessor_close_def split: prod.splits)
     (metis fst_conv)

lemma internal_get_data_loop:
  fixes b :: "('s, 'r) backend" and w :: "'s world" and u f p open_the_session
  assumes "open_the_session \<longrightarrow> session_calls_succeed b"
  defines "w0 \<equiv> emit [Print_batch_requested (length u)]
                   (w\<lparr>session := start_state b open_the_session (session w)\<rparr>)"
  shows "fst (internal_get_data b u f p open_the_session w)
           = Some (fst (while_loop b u f p [] 5 False w0))"
    and "trace (snd (internal_get_data b u f p open_the_session w))
           = trace (snd (while_loop b u f p [] 5 False w0))"
proof -
  obtain res w2 where L: "while_loop b u f p [] 5 False w0 = (res, w2)"
    by (cases "while_loop b u f p [] 5 False w0")
  show "fst (internal_get_data b u f p open_the_session w)
           = Some (fst (while_loop b u f p [] 5 False w0))"
  proof (cases open_the_session)
    case False
    with L show ?thesis
      by (simp add: internal_get_data_def w0_def start_state_def)
  next
    case True
    with assms(1) have ok: "session_calls_succeed b" by simp
    obtain c w3 where C: "DataProcessor_close b w2 = (c, w3)" by (cases "DataProcessor_close b w2")
    with close_ok [OF ok, of w2] have "c = None" by simp
    with True L C show ?thesis
      by (simp add: internal_get_data_def w0_def start_state_def open_session_ok [OF ok]
            emit_def)
  qed
  show "trace (snd (internal_get_data b u f p open_the_session w))
           = trace (snd (while_loop b u f p [] 5 False w0))"
  proof (cases open_the_session)
    case False
    with L show ?thesis
      by (simp add: internal_get_data_def w0_def start_state_def)
  next
    case True
    with assms(1) have ok: "session_calls_succeed b" by simp
    obtain c w3 where C: "DataProcessor_close b w2 = (c, w3)" by (cases "DataProcessor_close b w2")
    with close_ok [OF ok, of w2] have c: "c = None" by simp
    from C have "trace w3 = trace w2"
      using DataProcessor_close_trace [of b w2] by simp
    with True L C c show ?thesis
      by (simp add: internal_get_data_def w0_def start_state_def open_session_ok [OF ok]
            emit_def)
  qed
qed

lemma internal_get_data_calls:
  "get_data_calls (trace (snd (internal_get_data b u f p open_the_session w)))
   \<le> get_data_calls (trace w) + 5"
proof -
  have loop: "get_data_calls (trace (snd (while_loop b u f p [] 5 False
                  (emit [Print_batch_requested (length u)] w1))))
              \<le> get_data_calls (trace w1) + 5" for w1 :: "'a world"
    using while_loop_calls [of b u f p "[]" 5 "emit [Print_batch_requested (length u)] w1"]
    by (simp add: get_data_calls_def)
  show ?thesis
  proof (cases open_the_session)
    case False
    with loop [of w] show ?thesis
      by (auto simp add: internal_get_data_def split: prod.splits)
  next
    case True
    obtain r w1 where O: "DataProcessor_open_session b w = (r, w1)"
      by (cases "DataProcessor_open_session b w")
    then have t1: "trace w1 = trace w"
      using DataProcessor_open_session_trace [of b w] by simp
    show ?thesis
    proof (cases r)
      case (Some e)
      with True O t1 show ?thesis
        by (simp add: internal_get_data_def get_data_calls_def)
    next
      case None
      obtain res w2 where L: "while_loop b u f p [] 5 False
                                (emit [Print_batch_requested (length u)] w1) = (res, w2)"
        by (cases "while_loop b u f p [] 5 False (emit [Print_batch_requested (length u)] w1)")
      obtain c w3 where C: "DataProcessor_close b w2 = (c, w3)"
        by (cases "DataProcessor_close b w2")
      then have t3: "trace w3 = trace w2"
        using DataProcessor_close_trace [of b w2] by simp
      from loop [of w1] L t1 have "get_data_calls (trace w2) \<le> get_data_calls (trace w) + 5"
        by simp
      with True O None L C t3 show ?thesis
        by (cases c) (simp_all add: internal_get_data_def get_data_calls_def)
    qed
  qed
qed

lemma get_data_calls_failed_attempts [simp]:
  "get_data_calls (failed_attempts u f p exs nb) = length exs"
  by (induction exs arbitrary: nb) (simp_all add: get_data_calls_def)

lemma get_data_calls_append [simp]:
  "get_data_calls (xs @ ys) = get_data_calls xs + get_data_calls ys"
  by (simp add: get_data_calls_def)

lemma length_attempts [simp]: "length (attempts b u f p n s) = n"
  by (induction n arbitrary: s) (simp_all split: prod.splits)

lemma last_failed_attempts:
  "exs \<noteq> [] \<Longrightarrow>
   last (failed_attempts u f p exs nb) = Print_failed_request (last exs) (nb - int (length exs))"
proof (induction exs arbitrary: nb)
  case Nil
  then show ?case by simp
next
  case (Cons ex exs)
  show ?case
  proof (cases "exs = []")
    case True
    then show ?thesis by simp
  next
    case False
    have "failed_attempts u f p exs (nb - 1) \<noteq> []"
      using False by (cases exs) simp_all
    with Cons.IH [OF False, of "nb - 1"] False show ?thesis
      by simp
  qed
qed

lemma internal_get_data_all_fail:
  assumes "open_the_session \<longrightarrow> session_calls_succeed b"
      and "attempts b u f p 5 (start_state b open_the_session (session w)) = map Inl exs"
  shows "fst (internal_get_data b u f p open_the_session w) = Some []"
    and "trace (snd (internal_get_data b u f p open_the_session w))
           = trace w @ Print_batch_requested (length u) # failed_attempts u f p exs 5"
  using assms(2)
    while_loop_all_fail [of b u f p 5 "emit [Print_batch_requested (length u)]
                   (w\<lparr>session := start_state b open_the_session (session w)\<rparr>)" exs "[]"]
  by (simp_all add: internal_get_data_loop [OF assms(1)])

lemma internal_get_data_first_success:
  assumes "open_the_session \<longrightarrow> session_calls_succeed b"
      and "attempts b u f p 5 (start_state b open_the_session (session w))
             = map Inl exs @ Inr r # rest"
  shows "fst (internal_get_data b u f p open_the_session w) = Some r"
    and "trace (snd (internal_get_data b u f p open_the_session w))
           = trace w @ Print_batch_requested (length u) # failed_attempts u f p exs 5
               @ [Get_data u f p]"
  using assms(2)
    while_loop_first_success [of b u f p 5 "emit [Print_batch_requested (length u)]
                   (w\<lparr>session := start_state b open_the_session (session w)\<rparr>)" exs r rest "[]"]
  by (simp_all add: internal_get_data_loop [OF assms(1)])

lemma executor_map_results:
  "(\<And>x w. fst (fn x w) = g x) \<Longrightarrow> fst (executor_map fn xs w) = map g xs"
proof (induction xs arbitrary: w)
  case Nil
  then show ?case by simp
next
  case (Cons x xs)
  obtain r w1 where f: "fn x w = (r, w1)" by (cases "fn x w")
  with Cons.prems [of x w] have r: "r = g x" by simp
  obtain rs w2 where m: "executor_map fn xs w1 = (rs, w2)" by (cases "executor_map fn xs w1")
  with Cons.IH [OF Cons.prems, of w1] have "rs = map g xs" by simp
  with f r m show ?case by simp
qed



lemma math_ceil_div_ceiling:
  "b \<noteq> 0 \<Longrightarrow> math_ceil_div a b = Inr \<lceil>real_of_int a / real_of_int b\<rceil>"
  by (simp add: math_ceil_div_def ceiling_divide_eq_div)

lemma thread_chunk_size_eq:
  "max_workers \<noteq> 0 \<Longrightarrow>
   thread_chunk_size max_workers universe t
     = Inr (max t \<lceil>real (length universe) / real_of_int max_workers\<rceil>)"
  by (simp add: thread_chunk_size_def math_ceil_div_ceiling max.commute)

lemma process_chunk_size_eq:
  "0 < nb_workers \<Longrightarrow>
   process_chunk_size universe t nb_workers
     = Inr (max t \<lceil>real (length universe) / real_of_int nb_workers\<rceil>)"
  by (simp add: process_chunk_size_def ProcessPoolExecutor_def math_ceil_div_ceiling max.commute)

lemma process_chunk_size_raises:
  "nb_workers \<le> 0 \<Longrightarrow>
   process_chunk_size universe t nb_workers
     = Inl (ValueError ''max_workers must be greater than 0'')"
  by (simp add: process_chunk_size_def ProcessPoolExecutor_def)

lemma attempts_constant:
  "(\<And>s. fst (get_data b s u f p) = outcome) \<Longrightarrow> attempts b u f p n s = replicate n outcome"
proof (induction n arbitrary: s)
  case 0
  then show ?case by simp
next
  case (Suc n)
  obtain r s1 where g: "get_data b s u f p = (r, s1)" by (cases "get_data b s u f p")
  with Suc.prems [of s] have "r = outcome" by simp
  with g Suc.IH [OF Suc.prems, of s1] show ?case by simp
qed

lemma internal_get_data_constant:
  assumes "open_the_session \<longrightarrow> session_calls_succeed b"
      and "\<And>s. fst (get_data b s u f p) = outcome"
  shows "fst (internal_get_data b u f p open_the_session w) = Some (rows_of outcome)"
proof (cases outcome)
  case (Inl e)
  have "attempts b u f p 5 (start_state b open_the_session (session w))
          = map Inl (replicate 5 e)"
    using attempts_constant [OF assms(2)] Inl by simp
  from internal_get_data_all_fail(1) [OF assms(1) this] Inl show ?thesis
    by (simp add: rows_of_def)
next
  case (Inr rows)
  have "replicate 5 outcome = Inr rows # replicate 4 (Inr rows)"
    using Inr by (simp add: numeral_eq_Suc)
  then have "attempts b u f p 5 (start_state b open_the_session (session w))
          = map Inl [] @ Inr rows # replicate 4 (Inr rows)"
    by (simp only: attempts_constant [OF assms(2)] list.map append_Nil)
  from internal_get_data_first_success(1) [OF assms(1) this] Inr show ?thesis
    by (simp add: rows_of_def)
qed

lemma for_result_tables:
  "for_result output_df (map (\<lambda>x. Inr (Some (g x))) xs) = (None, output_df @ concat (map g xs))"
  by (induction xs arbitrary: output_df) (simp_all add: pd_concat_def)

lemma thread_results:
  assumes "max_workers \<noteq> 0"
      and "open_the_session \<longrightarrow> session_calls_succeed b"
      and "\<And>s chunk. fst (get_data b s chunk f p) = fetch chunk"
  shows "fst (threadPoolExecutor_get_data max_workers b u f p t open_the_session w)
         = Inr (concat (map (\<lambda>chunk. rows_of (fetch chunk))
                  (split_list_into_chunks u
                     (max t \<lceil>real (length u) / real_of_int max_workers\<rceil>))))"
proof -
  let ?chunks = "split_list_into_chunks u (max t \<lceil>real (length u) / real_of_int max_workers\<rceil>)"
  have igd: "fst (internal_get_data b chunk f p False w') = Some (rows_of (fetch chunk))"
    for chunk and w' :: "'a world"
    by (rule internal_get_data_constant) (simp_all add: assms(3))
  have res: "fst (executor_map (\<lambda>chunk. internal_get_data b chunk f p False) ?chunks w')
             = map (\<lambda>chunk. Some (rows_of (fetch chunk))) ?chunks" for w' :: "'a world"
    by (rule executor_map_results) (rule igd)
  have agg: "for_result [] (map Inr (map (\<lambda>chunk. Some (rows_of (fetch chunk))) ?chunks))
             = (None, concat (map (\<lambda>chunk. rows_of (fetch chunk)) ?chunks))"
    by (simp add: for_result_tables comp_def)
  obtain w1 where op: "(if open_the_session then DataProcessor_open_session b w else (None, w))
                        = (None, w1)"
    using assms(2) by (cases open_the_session) (simp_all add: open_session_ok)
  let ?best = "max t \<lceil>real (length u) / real_of_int max_workers\<rceil>"
  let ?w2 = "emit [Print_sending_batches ?best (length ?chunks),
                   Thread_pool_map (length ?chunks)] w1"
  obtain results w3 where E: "executor_map (\<lambda>chunk. internal_get_data b chunk f p False)
                                ?chunks ?w2 = (results, w3)"
    by (cases "executor_map (\<lambda>chunk. internal_get_data b chunk f p False) ?chunks ?w2")
  with res [of ?w2] have "results = map (\<lambda>chunk. Some (rows_of (fetch chunk))) ?chunks"
    by simp
  with agg have F: "for_result [] (map Inr results)
                    = (None, concat (map (\<lambda>chunk. rows_of (fetch chunk)) ?chunks))"
    by simp
  obtain w5 where cl: "(if open_the_session then DataProcessor_close b w3 else (None, w3))
                        = (None, w5)"
  proof (cases open_the_session)
    case True
    with assms(2) have "fst (DataProcessor_close b w3) = None" by (simp add: close_ok)
    with True that [of "snd (DataProcessor_close b w3)"] show ?thesis
      by (cases "DataProcessor_close b w3") simp
  next
    case False
    with that [of w3] show ?thesis by simp
  qed
  show ?thesis
    unfolding threadPoolExecutor_get_data_def
    by (simp only: op thread_chunk_size_eq [OF assms(1)] Let_def E F cl
          prod.case option.case sum.case fst_conv)
qed

lemma process_results:
  assumes "0 < nb_workers"
      and "session_calls_succeed b"
      and "\<And>s chunk. fst (get_data b s chunk f p) = fetch chunk"
      and "\<And>s. fst (get_data b s u f []) = direct"
  shows "fst (processPoolExecutor_get_data b u f p t nb_workers w)
         = Inr (Some
             (let universe_list = split_list_into_chunks u
                    (max t \<lceil>real (length u) / real_of_int nb_workers\<rceil>)
              in if length universe_list < 2 then rows_of direct
                 else concat (map (\<lambda>chunk. rows_of (fetch chunk)) universe_list)))"
proof -
  let ?chunks = "split_list_into_chunks u (max t \<lceil>real (length u) / real_of_int nb_workers\<rceil>)"
  have igd: "fst (internal_get_data b chunk f p o' w') = Some (rows_of (fetch chunk))"
    for chunk o' and w' :: "'a world"
    by (rule internal_get_data_constant) (simp_all add: assms)
  have dir: "fst (internal_get_data b u f [] False w) = Some (rows_of direct)"
    by (rule internal_get_data_constant) (simp_all add: assms)
  show ?thesis
  proof (cases "length ?chunks < 2")
    case True
    obtain r w1 where D: "internal_get_data b u f [] False w = (r, w1)"
      by (cases "internal_get_data b u f [] False w")
    with dir have "r = Some (rows_of direct)" by simp
    with True D show ?thesis
      unfolding processPoolExecutor_get_data_def
      by (simp add: process_chunk_size_eq [OF assms(1)] Let_def)
  next
    case False
    let ?w1 = "emit [Print_launching_processes (length ?chunks),
                     Process_pool_map (length ?chunks)] w"
    obtain results w2 where E: "executor_map (\<lambda>chunk. internal_get_data b chunk f p True)
                                  ?chunks ?w1 = (results, w2)"
      by (cases "executor_map (\<lambda>chunk. internal_get_data b chunk f p True) ?chunks ?w1")
    have "fst (executor_map (\<lambda>chunk. internal_get_data b chunk f p True) ?chunks ?w1)
          = map (\<lambda>chunk. Some (rows_of (fetch chunk))) ?chunks"
      by (rule executor_map_results) (rule igd)
    with E have "results = map (\<lambda>chunk. Some (rows_of (fetch chunk))) ?chunks" by simp
    then have F: "for_result [] (map Inr results)
                    = (None, concat (map (\<lambda>chunk. rows_of (fetch chunk)) ?chunks))"
      by (simp add: for_result_tables comp_def)
    from False show ?thesis
      unfolding processPoolExecutor_get_data_def
      by (simp add: process_chunk_size_eq [OF assms(1)] Let_def E F)
  qed
qed

lemma hybrid_results:
  assumes "0 < nb_workers" and "thread_workers \<noteq> 0"
      and "session_calls_succeed b"
      and "\<And>s chunk. fst (get_data b s chunk f p) = fetch chunk"
  shows "fst (hybridPoolExecutor_get_data thread_workers b u f p t nb_workers w)
         = Inr (let thread_rows = (\<lambda>part. concat (map (\<lambda>chunk. rows_of (fetch chunk))
                       (split_list_into_chunks part
                          (max t \<lceil>real (length part) / real_of_int thread_workers\<rceil>))));
                    universe_list = split_list_into_chunks u
                       (max t \<lceil>real (length u) / real_of_int nb_workers\<rceil>)
                in if length universe_list < 2 then thread_rows u
                   else concat (map thread_rows universe_list))"
proof -
  let ?chunks = "split_list_into_chunks u (max t \<lceil>real (length u) / real_of_int nb_workers\<rceil>)"
  let ?rows = "\<lambda>part. concat (map (\<lambda>chunk. rows_of (fetch chunk))
                       (split_list_into_chunks part
                          (max t \<lceil>real (length part) / real_of_int thread_workers\<rceil>)))"
  have th: "fst (threadPoolExecutor_get_data thread_workers b part f p t o' w') = Inr (?rows part)"
    for part o' and w' :: "'a world"
    by (rule thread_results) (simp_all add: assms)
  show ?thesis
  proof (cases "length ?chunks < 2")
    case True
    with th [of u False w] show ?thesis
      unfolding hybridPoolExecutor_get_data_def
      by (simp add: process_chunk_size_eq [OF assms(1)] Let_def)
  next
    case False
    let ?w1 = "emit [Print_launching_processes (length ?chunks),
                     Process_pool_map (length ?chunks)] w"
    let ?fn = "\<lambda>chunk. threadPoolExecutor_get_data thread_workers b chunk f p t True"
    obtain results w2 where E: "executor_map ?fn ?chunks ?w1 = (results, w2)"
      by (cases "executor_map ?fn ?chunks ?w1")
    have "fst (executor_map ?fn ?chunks ?w1) = map (\<lambda>part. Inr (?rows part)) ?chunks"
      by (rule executor_map_results) (rule th)
    with E have "results = map (\<lambda>part. Inr (?rows part)) ?chunks" by simp
    then have F: "for_result [] (map (map_sum id Some) results)
                    = (None, concat (map ?rows ?chunks))"
      by (simp add: for_result_tables comp_def)
    from False show ?thesis
      unfolding hybridPoolExecutor_get_data_def
      by (simp add: process_chunk_size_eq [OF assms(1)] Let_def E F)
  qed
qed

lemma thread_returns:
  "max_workers \<noteq> 0 \<Longrightarrow>
   \<exists>output_df. fst (threadPoolExecutor_get_data max_workers b u f p t False w) = Inr output_df"
  unfolding threadPoolExecutor_get_data_def
  by (simp add: thread_chunk_size_eq Let_def split: prod.splits)

lemma process_returns:
  "0 < nb_workers \<Longrightarrow>
   \<exists>r. fst (processPoolExecutor_get_data b u f p t nb_workers w) = Inr r"
  unfolding processPoolExecutor_get_data_def
  by (simp add: process_chunk_size_eq Let_def split: prod.splits)

lemma hybrid_returns:
  "0 < nb_workers \<Longrightarrow> thread_workers \<noteq> 0 \<Longrightarrow>
   \<exists>output_df. fst (hybridPoolExecutor_get_data thread_workers b u f p t nb_workers w)
                  = Inr output_df"
  unfolding hybridPoolExecutor_get_data_def
  using thread_returns [of thread_workers b u f p t w]
  by (simp add: process_chunk_size_eq Let_def split: prod.splits)

lemma process_pool_maps_append [simp]:
  "process_pool_maps (xs @ ys) = process_pool_maps xs + process_pool_maps ys"
  by (simp add: process_pool_maps_def)




section \<open>The claims on the retrying fetcher\<close>

lemma fake_backend_sessions: "session_calls_succeed (fake_backend k bad)"
  by (simp add: session_calls_succeed_def fake_backend_def)

lemma attempts_always_bad:
  "attempts (fake_backend 0 [''BAD'']) [''BAD''] [''F''] [] 5 s
   = map Inl (replicate 5 (Exception ''unknown instrument''))"
  by (simp add: fake_backend_def numeral_eq_Suc)

lemma attempts_flaky:
  "attempts (fake_backend 2 []) [''A''] [''F''] [] 5 0
   = map Inl [Exception ''timeout'', Exception ''timeout'']
     @ Inr [(''A'', [''F''])] # [Inr [(''A'', [''F''])], Inr [(''A'', [''F''])]]"
  by (simp add: fake_backend_def numeral_eq_Suc)

text \<open>
  Claim C1, as stated, fails. With a backend that raises at each of the five attempts,
  \<^verbatim>\<open>internal_get_data\<close> returns the empty DataFrame it created before the loop: no
  error reaches the caller.
\<close>

theorem internal_get_data_exhausted_counterexample:
  "attempts (fake_backend 0 [''BAD'']) [''BAD''] [''F''] [] 5 0
     = replicate 5 (Inl (Exception ''unknown instrument'')) \<and>
   fst (internal_get_data (fake_backend 0 [''BAD'']) [''BAD''] [''F''] [] False initial_world)
     = Some []"
  using internal_get_data_all_fail(1) [of False "fake_backend 0 [''BAD'']" "[''BAD'']" "[''F'']"
          "[]" initial_world "replicate 5 (Exception ''unknown instrument'')"]
    attempts_always_bad [of 0]
  by (simp add: start_state_def initial_world_def)

text \<open>
  Claim C1, amended. When all five attempts of a fetch raise (the session calls, if any,
  succeeding), \<^verbatim>\<open>internal_get_data\<close> still returns a DataFrame and not an error; the
  last underlying cause is only printed, in the final line of the retry loop, with 0
  attempts remaining.
\<close>

theorem internal_get_data_exhausted_returns:
  assumes "open_the_session \<longrightarrow> session_calls_succeed b"
      and "attempts b universe flds parameters 5 (start_state b open_the_session (session w))
             = map Inl exs"
  shows "fst (internal_get_data b universe flds parameters open_the_session w) \<noteq> None \<and>
         last (trace (snd (internal_get_data b universe flds parameters open_the_session w)))
           = Print_failed_request (last exs) 0"
proof -
  have "length (map Inl exs :: (exn + 'b list) list) = 5"
    using assms(2) [symmetric] by (simp only: length_attempts)
  then have len: "length exs = 5" by simp
  then have ne: "exs \<noteq> []" by auto
  then have "failed_attempts universe flds parameters exs 5 \<noteq> []"
    by (cases exs) simp_all
  with last_failed_attempts [OF ne, of universe flds parameters 5] len
  show ?thesis
    by (simp add: internal_get_data_all_fail [OF assms])
qed

text \<open>The amended claim C1 at a backend that rejects the instrument requested.\<close>

theorem internal_get_data_exhausted_returns_witness:
  "attempts (fake_backend 0 [''BAD'']) [''BAD''] [''F''] []  5
      (start_state (fake_backend 0 [''BAD'']) False (session initial_world))
     = map Inl (replicate 5 (Exception ''unknown instrument'')) \<and>
   fst (internal_get_data (fake_backend 0 [''BAD'']) [''BAD''] [''F''] [] False initial_world)
     \<noteq> None \<and>
   last (trace (snd (internal_get_data (fake_backend 0 [''BAD'']) [''BAD''] [''F''] [] False
                       initial_world)))
     = Print_failed_request (Exception ''unknown instrument'') 0"
proof -
  have h: "attempts (fake_backend 0 [''BAD'']) [''BAD''] [''F''] []  5
             (start_state (fake_backend 0 [''BAD'']) False (session initial_world))
           = map Inl (replicate 5 (Exception ''unknown instrument''))"
    by (rule attempts_always_bad)
  have s: "False \<longrightarrow> session_calls_succeed (fake_backend 0 [''BAD''])" by simp
  from internal_get_data_exhausted_returns [OF s h] h show ?thesis
    by (simp add: numeral_eq_Suc)
qed

text \<open>
  Claim C10. When all five attempts raise, \<^verbatim>\<open>internal_get_data\<close> returns the empty
  DataFrame created before the loop, as a normal result; this is the very value it
  returns when the first attempt succeeds with zero rows, so the caller cannot tell an
  exhausted fetch from an empty one.
\<close>

theorem internal_get_data_exhausted_empty:
  assumes "open_the_session \<longrightarrow> session_calls_succeed b"
      and "attempts b universe flds parameters 5 (start_state b open_the_session (session w))
             = map Inl exs"
      and "open_the_session' \<longrightarrow> session_calls_succeed b'"
      and "fst (get_data b' (start_state b' open_the_session' (session w'))
                  universe' flds' parameters') = Inr []"
  shows "fst (internal_get_data b universe flds parameters open_the_session w) = Some [] \<and>
         fst (internal_get_data b universe flds parameters open_the_session w)
           = fst (internal_get_data b' universe' flds' parameters' open_the_session' w')"
proof -
  obtain r s1 where g: "get_data b' (start_state b' open_the_session' (session w'))
                          universe' flds' parameters' = (r, s1)"
    by (cases "get_data b' (start_state b' open_the_session' (session w'))
                 universe' flds' parameters'")
  with assms(4) have r: "r = Inr []" by simp
  have "attempts b' universe' flds' parameters' 5
          (start_state b' open_the_session' (session w'))
        = map Inl [] @ Inr [] # attempts b' universe' flds' parameters' 4 s1"
    using g r by (simp add: numeral_eq_Suc)
  from internal_get_data_first_success(1) [OF assms(3) this]
       internal_get_data_all_fail(1) [OF assms(1,2)]
  show ?thesis by simp
qed

text \<open>
  Claim C10 at two runs: every attempt rejected on one side, an empty universe fetched
  at once on the other.
\<close>

theorem internal_get_data_exhausted_empty_witness:
  "attempts (fake_backend 0 [''BAD'']) [''BAD''] [''F''] [] 5
      (start_state (fake_backend 0 [''BAD'']) False (session initial_world))
     = map Inl (replicate 5 (Exception ''unknown instrument'')) \<and>
   session_calls_succeed (fake_backend 0 []) \<and>
   fst (get_data (fake_backend 0 []) (start_state (fake_backend 0 []) True (session initial_world))
          [] [''F''] []) = Inr [] \<and>
   fst (internal_get_data (fake_backend 0 [''BAD'']) [''BAD''] [''F''] [] False initial_world)
     = Some [] \<and>
   fst (internal_get_data (fake_backend 0 [''BAD'']) [''BAD''] [''F''] [] False initial_world)
     = fst (internal_get_data (fake_backend 0 []) [] [''F''] [] True initial_world)"
proof -
  have h1: "False \<longrightarrow> session_calls_succeed (fake_backend 0 [''BAD''])" by simp
  have h2: "attempts (fake_backend 0 [''BAD'']) [''BAD''] [''F''] [] 5
              (start_state (fake_backend 0 [''BAD'']) False (session initial_world))
            = map Inl (replicate 5 (Exception ''unknown instrument''))"
    by (rule attempts_always_bad)
  have h3: "True \<longrightarrow> session_calls_succeed (fake_backend 0 [])"
    by (simp add: fake_backend_sessions)
  have h4: "fst (get_data (fake_backend 0 [])
                   (start_state (fake_backend 0 []) True (session initial_world))
                   [] [''F''] []) = Inr []"
    by (simp add: fake_backend_def)
  from internal_get_data_exhausted_empty [OF h1 h2 h3 h4] h2 h4 fake_backend_sessions [of 0 "[]"]
  show ?thesis
    by blast
qed

lemma get_data_calls_Cons [simp]:
  "get_data_calls (e # tr) = (if is_Get_data e then 1 else 0) + get_data_calls tr"
  by (simp add: get_data_calls_def)

lemma get_data_calls_Nil [simp]: "get_data_calls [] = 0"
  by (simp add: get_data_calls_def)

text \<open>
  Claim C3. A call of \<^verbatim>\<open>internal_get_data\<close> makes at most five calls of
  \<^verbatim>\<open>rd.get_data\<close>. When the five attempts all raise, it makes exactly five, each
  followed by a pause of 200 ms and the printed line. When an attempt succeeds after
  some failures, that attempt is the last call made and its rows are the result.
\<close>

theorem internal_get_data_attempts:
  "get_data_calls (trace (snd (internal_get_data b universe flds parameters open_the_session w)))
     \<le> get_data_calls (trace w) + 5 \<and>
   ((open_the_session \<longrightarrow> session_calls_succeed b) \<longrightarrow>
    attempts b universe flds parameters 5 (start_state b open_the_session (session w))
      = map Inl exs \<longrightarrow>
    trace (snd (internal_get_data b universe flds parameters open_the_session w))
      = trace w @ Print_batch_requested (length universe)
                  # failed_attempts universe flds parameters exs 5 \<and>
    get_data_calls (trace (snd (internal_get_data b universe flds parameters
                                  open_the_session w)))
      = get_data_calls (trace w) + 5) \<and>
   ((open_the_session \<longrightarrow> session_calls_succeed b) \<longrightarrow>
    attempts b universe flds parameters 5 (start_state b open_the_session (session w))
      = map Inl exs' @ Inr rows # rest \<longrightarrow>
    fst (internal_get_data b universe flds parameters open_the_session w) = Some rows \<and>
    trace (snd (internal_get_data b universe flds parameters open_the_session w))
      = trace w @ Print_batch_requested (length universe)
                  # failed_attempts universe flds parameters exs' 5
                  @ [Get_data universe flds parameters] \<and>
    get_data_calls (trace (snd (internal_get_data b universe flds parameters
                                  open_the_session w)))
      = get_data_calls (trace w) + length exs' + 1)"
proof (intro conjI impI)
  show "get_data_calls (trace (snd (internal_get_data b universe flds parameters
                                      open_the_session w)))
          \<le> get_data_calls (trace w) + 5"
    by (rule internal_get_data_calls)
next
  assume ok: "open_the_session \<longrightarrow> session_calls_succeed b"
     and a: "attempts b universe flds parameters 5
               (start_state b open_the_session (session w)) = map Inl exs"
  have "length (map Inl exs :: (exn + 'b list) list) = 5"
    using a [symmetric] by (simp only: length_attempts)
  then have len: "length exs = 5" by simp
  show t: "trace (snd (internal_get_data b universe flds parameters open_the_session w))
      = trace w @ Print_batch_requested (length universe)
                  # failed_attempts universe flds parameters exs 5"
    by (rule internal_get_data_all_fail(2) [OF ok a])
  show "get_data_calls (trace (snd (internal_get_data b universe flds parameters
                                  open_the_session w)))
      = get_data_calls (trace w) + 5"
    using len by (simp add: t)
next
  assume ok: "open_the_session \<longrightarrow> session_calls_succeed b"
     and a: "attempts b universe flds parameters 5
               (start_state b open_the_session (session w)) = map Inl exs' @ Inr rows # rest"
  show "fst (internal_get_data b universe flds parameters open_the_session w) = Some rows"
    by (rule internal_get_data_first_success(1) [OF ok a])
  show t: "trace (snd (internal_get_data b universe flds parameters open_the_session w))
      = trace w @ Print_batch_requested (length universe)
                  # failed_attempts universe flds parameters exs' 5
                  @ [Get_data universe flds parameters]"
    by (rule internal_get_data_first_success(2) [OF ok a])
  show "get_data_calls (trace (snd (internal_get_data b universe flds parameters
                                  open_the_session w)))
      = get_data_calls (trace w) + length exs' + 1"
    by (simp add: t)
qed

text \<open>
  Claim C3 at a backend that rejects the instrument at every attempt (five calls, five
  pauses) and at one whose first two calls time out (three calls, the third result
  returned).
\<close>

theorem internal_get_data_attempts_witness:
  "attempts (fake_backend 0 [''BAD'']) [''BAD''] [''F''] [] 5 0
     = map Inl (replicate 5 (Exception ''unknown instrument'')) \<and>
   trace (snd (internal_get_data (fake_backend 0 [''BAD'']) [''BAD''] [''F''] [] False
                 initial_world))
     = [Print_batch_requested 1,
        Get_data [''BAD''] [''F''] [], Sleep 200,
        Print_failed_request (Exception ''unknown instrument'') 4,
        Get_data [''BAD''] [''F''] [], Sleep 200,
        Print_failed_request (Exception ''unknown instrument'') 3,
        Get_data [''BAD''] [''F''] [], Sleep 200,
        Print_failed_request (Exception ''unknown instrument'') 2,
        Get_data [''BAD''] [''F''] [], Sleep 200,
        Print_failed_request (Exception ''unknown instrument'') 1,
        Get_data [''BAD''] [''F''] [], Sleep 200,
        Print_failed_request (Exception ''unknown instrument'') 0] \<and>
   get_data_calls (trace (snd (internal_get_data (fake_backend 0 [''BAD'']) [''BAD''] [''F''] []
                                 False initial_world))) = 5 \<and>
   attempts (fake_backend 2 []) [''A''] [''F''] [] 5 0
     = map Inl [Exception ''timeout'', Exception ''timeout'']
       @ Inr [(''A'', [''F''])] # [Inr [(''A'', [''F''])], Inr [(''A'', [''F''])]] \<and>
   fst (internal_get_data (fake_backend 2 []) [''A''] [''F''] [] False initial_world)
     = Some [(''A'', [''F''])] \<and>
   get_data_calls (trace (snd (internal_get_data (fake_backend 2 []) [''A''] [''F''] [] False
                                 initial_world))) = 3"
proof -
  have a1: "attempts (fake_backend 0 [''BAD'']) [''BAD''] [''F''] [] 5
              (start_state (fake_backend 0 [''BAD'']) False (session initial_world))
            = map Inl (replicate 5 (Exception ''unknown instrument''))"
    by (rule attempts_always_bad)
  have a2: "attempts (fake_backend 2 []) [''A''] [''F''] [] 5
              (start_state (fake_backend 2 []) False (session initial_world))
            = map Inl [Exception ''timeout'', Exception ''timeout'']
              @ Inr [(''A'', [''F''])] # [Inr [(''A'', [''F''])], Inr [(''A'', [''F''])]]"
    using attempts_flaky by (simp add: start_state_def initial_world_def)
  have t0: "trace initial_world = []" by (simp add: initial_world_def)
  have r5: "replicate 5 (Exception ''unknown instrument'')
              = [Exception ''unknown instrument'', Exception ''unknown instrument'',
                 Exception ''unknown instrument'', Exception ''unknown instrument'',
                 Exception ''unknown instrument'']"
    by (simp add: numeral_eq_Suc)
  note w1 = internal_get_data_attempts [of "fake_backend 0 [''BAD'']" "[''BAD'']" "[''F'']" "[]"
              False initial_world "replicate 5 (Exception ''unknown instrument'')"]
  note w2 = internal_get_data_attempts [of "fake_backend 2 []" "[''A'']" "[''F'']" "[]"
              False initial_world _ "[Exception ''timeout'', Exception ''timeout'']"
              "[(''A'', [''F''])]" "[Inr [(''A'', [''F''])], Inr [(''A'', [''F''])]]"]
  have c1: "trace (snd (internal_get_data (fake_backend 0 [''BAD'']) [''BAD''] [''F''] [] False
                 initial_world))
            = trace initial_world @ Print_batch_requested (length [''BAD''])
                # failed_attempts [''BAD''] [''F''] [] (replicate 5 (Exception ''unknown instrument'')) 5"
    and c2: "get_data_calls (trace (snd (internal_get_data (fake_backend 0 [''BAD'']) [''BAD'']
                 [''F''] [] False initial_world))) = get_data_calls (trace initial_world) + 5"
    using w1 a1 by simp_all
  have c3: "fst (internal_get_data (fake_backend 2 []) [''A''] [''F''] [] False initial_world)
              = Some [(''A'', [''F''])]"
    and c4: "get_data_calls (trace (snd (internal_get_data (fake_backend 2 []) [''A''] [''F''] []
                 False initial_world)))
             = get_data_calls (trace initial_world)
               + length [Exception ''timeout'', Exception ''timeout''] + 1"
    using w2 a2 by simp_all
  show ?thesis
    using attempts_always_bad [of 0] attempts_flaky c1 c2 c3 c4
    by (simp add: t0 r5)
qed

section \<open>The claims on the strategies\<close>

lemma split_three_by_one:
  "split_list_into_chunks [''A'', ''BAD'', ''C''] 1 = [[''A''], [''BAD''], [''C'']]"
  by (simp add: split_list_into_chunks_def py_range.simps py_slice_def)

lemma fake_backend_outcome:
  "fst (get_data (fake_backend 0 bad) s chunk f p)
   = (if filter (\<lambda>i. i \<in> set bad) chunk = [] then Inr (map (\<lambda>i. (i, f)) chunk)
      else Inl (Exception ''unknown instrument''))"
  by (simp add: fake_backend_def)

text \<open>
  Claim C2, as stated, fails. Of three chunks the second is rejected at all five
  attempts; \<^verbatim>\<open>threadPoolExecutor_get_data\<close> returns normally, with the rows of the
  first and third chunks.
\<close>

theorem threadPoolExecutor_partial_counterexample:
  "attempts (fake_backend 0 [''BAD'']) [''BAD''] [''F''] [] 5 1
     = replicate 5 (Inl (Exception ''unknown instrument'')) \<and>
   fst (threadPoolExecutor_get_data 8 (fake_backend 0 [''BAD'']) [''A'', ''BAD'', ''C'']
          [''F''] [] 1 False initial_world)
     = Inr [(''A'', [''F'']), (''C'', [''F''])]"
proof -
  have "fst (threadPoolExecutor_get_data 8 (fake_backend 0 [''BAD'']) [''A'', ''BAD'', ''C'']
          [''F''] [] 1 False initial_world)
        = Inr (concat (map (\<lambda>chunk. rows_of
                 (if filter (\<lambda>i. i \<in> set [''BAD'']) chunk = []
                  then Inr (map (\<lambda>i. (i, [''F''])) chunk)
                  else Inl (Exception ''unknown instrument'')))
               (split_list_into_chunks [''A'', ''BAD'', ''C'']
                  (max 1 \<lceil>real (length [''A'', ''BAD'', ''C'']) / real_of_int 8\<rceil>))))"
    by (rule thread_results) (simp_all add: fake_backend_outcome)
  moreover have "max 1 \<lceil>real (length [''A'', ''BAD'', ''C'']) / real_of_int 8\<rceil> = 1"
    by (simp add: ceiling_eq_iff)
  ultimately show ?thesis
    using attempts_always_bad [of 1]
    by (simp add: split_three_by_one rows_of_def)
qed

text \<open>
  Claim C2, amended. With positive worker counts a run of a fan-out strategy returns
  a table normally whatever the fetches of its chunks do. For a backend whose answer
  depends on the request only, the table of \<^verbatim>\<open>threadPoolExecutor_get_data\<close> is the
  concatenation, in chunk order, of the rows fetched for each chunk, a chunk whose
  fetch raised at every attempt contributing no row. When the sessions also open and
  close, the same holds of \<^verbatim>\<open>processPoolExecutor_get_data\<close> over its chunks (below
  two chunks its table is that of the direct fetch of the whole universe with the
  default parameters, empty when that fetch failed) and of
  \<^verbatim>\<open>hybridPoolExecutor_get_data\<close>, whose table concatenates, in chunk order, the
  tables the thread strategy builds for each of its chunks (below two chunks, for the
  whole universe).
\<close>

theorem fan_out_returns_normally:
  "0 < max_workers \<longrightarrow> 0 < nb_workers \<longrightarrow>
   (\<exists>output_df. fst (threadPoolExecutor_get_data max_workers b universe flds parameters
                        nb_items_threshold False w) = Inr output_df) \<and>
   (\<exists>r. fst (processPoolExecutor_get_data b universe flds parameters nb_items_threshold
                nb_workers w) = Inr r) \<and>
   (\<exists>output_df. fst (hybridPoolExecutor_get_data max_workers b universe flds parameters
                        nb_items_threshold nb_workers w) = Inr output_df) \<and>
   ((\<forall>s chunk. fst (get_data b s chunk flds parameters) = fetch chunk) \<longrightarrow>
    fst (threadPoolExecutor_get_data max_workers b universe flds parameters
           nb_items_threshold False w)
      = Inr (concat (map (\<lambda>chunk. rows_of (fetch chunk))
               (split_list_into_chunks universe
                  (max nb_items_threshold
                     \<lceil>real (length universe) / real_of_int max_workers\<rceil>)))) \<and>
    (session_calls_succeed b \<longrightarrow>
     ((\<forall>s. fst (get_data b s universe flds []) = direct) \<longrightarrow>
      fst (processPoolExecutor_get_data b universe flds parameters nb_items_threshold
             nb_workers w)
        = Inr (Some
            (let universe_list = split_list_into_chunks universe
                   (max nb_items_threshold
                      \<lceil>real (length universe) / real_of_int nb_workers\<rceil>)
             in if length universe_list < 2 then rows_of direct
                else concat (map (\<lambda>chunk. rows_of (fetch chunk)) universe_list)))) \<and>
     fst (hybridPoolExecutor_get_data max_workers b universe flds parameters
            nb_items_threshold nb_workers w)
       = Inr (let thread_rows = (\<lambda>part. concat (map (\<lambda>chunk. rows_of (fetch chunk))
                      (split_list_into_chunks part
                         (max nb_items_threshold
                            \<lceil>real (length part) / real_of_int max_workers\<rceil>))));
                  universe_list = split_list_into_chunks universe
                      (max nb_items_threshold
                         \<lceil>real (length universe) / real_of_int nb_workers\<rceil>)
              in if length universe_list < 2 then thread_rows universe
                 else concat (map thread_rows universe_list))))"
proof (intro impI conjI)
  assume mw: "0 < max_workers" and nw: "0 < nb_workers"
  from mw have mw0: "max_workers \<noteq> 0" by simp
  show "\<exists>output_df. fst (threadPoolExecutor_get_data max_workers b universe flds parameters
                        nb_items_threshold False w) = Inr output_df"
    by (rule thread_returns [OF mw0])
  show "\<exists>r. fst (processPoolExecutor_get_data b universe flds parameters nb_items_threshold
                nb_workers w) = Inr r"
    by (rule process_returns [OF nw])
  show "\<exists>output_df. fst (hybridPoolExecutor_get_data max_workers b universe flds parameters
                        nb_items_threshold nb_workers w) = Inr output_df"
    by (rule hybrid_returns [OF nw mw0])
  assume f: "\<forall>s chunk. fst (get_data b s chunk flds parameters) = fetch chunk"
  then show "fst (threadPoolExecutor_get_data max_workers b universe flds parameters
           nb_items_threshold False w)
      = Inr (concat (map (\<lambda>chunk. rows_of (fetch chunk))
               (split_list_into_chunks universe
                  (max nb_items_threshold
                     \<lceil>real (length universe) / real_of_int max_workers\<rceil>))))"
    using mw0 by (intro thread_results) simp_all
  assume ok: "session_calls_succeed b"
  show "fst (hybridPoolExecutor_get_data max_workers b universe flds parameters
            nb_items_threshold nb_workers w)
       = Inr (let thread_rows = (\<lambda>part. concat (map (\<lambda>chunk. rows_of (fetch chunk))
                      (split_list_into_chunks part
                         (max nb_items_threshold
                            \<lceil>real (length part) / real_of_int max_workers\<rceil>))));
                  universe_list = split_list_into_chunks universe
                      (max nb_items_threshold
                         \<lceil>real (length universe) / real_of_int nb_workers\<rceil>)
              in if length universe_list < 2 then thread_rows universe
                 else concat (map thread_rows universe_list))"
    by (rule hybrid_results [OF nw mw0 ok]) (simp add: f)
  assume d: "\<forall>s. fst (get_data b s universe flds []) = direct"
  show "fst (processPoolExecutor_get_data b universe flds parameters nb_items_threshold
             nb_workers w)
        = Inr (Some
            (let universe_list = split_list_into_chunks universe
                   (max nb_items_threshold
                      \<lceil>real (length universe) / real_of_int nb_workers\<rceil>)
             in if length universe_list < 2 then rows_of direct
                else concat (map (\<lambda>chunk. rows_of (fetch chunk)) universe_list)))"
    by (rule process_results [OF nw ok]) (simp_all add: f d)
qed

text \<open>
  The amended claim C2 at the backend and universe of the counterexample, for 8 threads
  and 3 processes: each strategy returns the rows of the first and third instruments.
\<close>

theorem fan_out_returns_normally_witness:
  "(0::int) < 8 \<and> (0::int) < 3 \<and>
   session_calls_succeed (fake_backend 0 [''BAD'']) \<and>
   (\<forall>s chunk. fst (get_data (fake_backend 0 [''BAD'']) s chunk [''F''] [])
      = (if filter (\<lambda>i. i \<in> set [''BAD'']) chunk = [] then Inr (map (\<lambda>i. (i, [''F''])) chunk)
         else Inl (Exception ''unknown instrument''))) \<and>
   (\<forall>s. fst (get_data (fake_backend 0 [''BAD'']) s [''A'', ''BAD'', ''C''] [''F''] [])
      = Inl (Exception ''unknown instrument'')) \<and>
   fst (threadPoolExecutor_get_data 8 (fake_backend 0 [''BAD''])
          [''A'', ''BAD'', ''C''] [''F''] [] 1 False initial_world)
     = Inr [(''A'', [''F'']), (''C'', [''F''])] \<and>
   fst (processPoolExecutor_get_data (fake_backend 0 [''BAD''])
          [''A'', ''BAD'', ''C''] [''F''] [] 1 3 initial_world)
     = Inr (Some [(''A'', [''F'']), (''C'', [''F''])]) \<and>
   fst (hybridPoolExecutor_get_data 8 (fake_backend 0 [''BAD''])
          [''A'', ''BAD'', ''C''] [''F''] [] 1 3 initial_world)
     = Inr [(''A'', [''F'']), (''C'', [''F''])]"
proof -
  let ?fetch = "\<lambda>chunk. if filter (\<lambda>i. i \<in> set [''BAD'']) chunk = []
                  then Inr (map (\<lambda>i. (i, [''F''])) chunk)
                  else Inl (Exception ''unknown instrument'')"
  have h: "\<forall>s chunk. fst (get_data (fake_backend 0 [''BAD'']) s chunk [''F''] []) = ?fetch chunk"
    by (simp add: fake_backend_outcome)
  have d: "\<forall>s. fst (get_data (fake_backend 0 [''BAD'']) s [''A'', ''BAD'', ''C''] [''F''] [])
             = Inl (Exception ''unknown instrument'')"
    by (simp add: fake_backend_outcome)
  have p: "(0::int) < 8" "(0::int) < 3" by simp_all
  have ok: "session_calls_succeed (fake_backend 0 [''BAD''])"
    by (rule fake_backend_sessions)
  have s8: "max 1 \<lceil>real (length [''A'', ''BAD'', ''C'']) / real_of_int 8\<rceil> = 1"
    by (simp add: ceiling_eq_iff)
  have s3: "max 1 \<lceil>real (length [''A'', ''BAD'', ''C'']) / real_of_int 3\<rceil> = 1"
    by simp
  have s1: "max 1 \<lceil>real (length [x]) / real_of_int 8\<rceil> = 1" for x :: ident
    by (simp add: ceiling_eq_iff)
  have one: "split_list_into_chunks [x] 1 = [[x]]" for x :: ident
    by (simp add: split_list_into_chunks_def py_range.simps py_slice_def)
  note T = fan_out_returns_normally [of 8 3 "fake_backend 0 [''BAD'']" "[''A'', ''BAD'', ''C'']"
         "[''F'']" "[]" 1 initial_world ?fetch "Inl (Exception ''unknown instrument'')"]
  have c1: "fst (threadPoolExecutor_get_data 8 (fake_backend 0 [''BAD''])
          [''A'', ''BAD'', ''C''] [''F''] [] 1 False initial_world)
     = Inr [(''A'', [''F'']), (''C'', [''F''])]"
    using T p h by (simp add: s8 split_three_by_one rows_of_def)
  have c2: "fst (processPoolExecutor_get_data (fake_backend 0 [''BAD''])
          [''A'', ''BAD'', ''C''] [''F''] [] 1 3 initial_world)
     = Inr (Some [(''A'', [''F'']), (''C'', [''F''])])"
    using T p h d ok by (simp add: s3 split_three_by_one rows_of_def)
  have c3: "fst (hybridPoolExecutor_get_data 8 (fake_backend 0 [''BAD''])
          [''A'', ''BAD'', ''C''] [''F''] [] 1 3 initial_world)
     = Inr [(''A'', [''F'']), (''C'', [''F''])]"
    using T p h ok by (simp add: s3 s1 one split_three_by_one rows_of_def)
  from p ok h d c1 c2 c3 show ?thesis
    by blast
qed

lemma ceiling_quotient_pos:
  "0 < n \<Longrightarrow> 0 < workers \<Longrightarrow> 1 \<le> \<lceil>real n / real_of_int workers\<rceil>"
proof -
  assume "0 < n" and "0 < workers"
  then have "0 < real n / real_of_int workers" by simp
  then have "0 < \<lceil>real n / real_of_int workers\<rceil>" by (simp only: zero_less_ceiling)
  then show ?thesis by simp
qed

lemma max_one_max: "(1::int) \<le> c \<Longrightarrow> max 1 (max t c) = max t c"
  by (auto simp add: max_def)

text \<open>
  Claim C5. For a positive worker count, the chunk size that the thread strategy and
  the process and hybrid strategies pass to the partitioner is the larger of the
  caller's \<open>nb_items_threshold\<close> and the ceiling of the universe's length divided by
  the worker count; it is never below the threshold, and every chunk of the partition
  but the last has exactly that many items.
\<close>

theorem chunk_size_policy:
  assumes "0 < workers"
  shows "thread_chunk_size workers universe nb_items_threshold
           = Inr (max nb_items_threshold \<lceil>real (length universe) / real_of_int workers\<rceil>) \<and>
         process_chunk_size universe nb_items_threshold workers
           = Inr (max nb_items_threshold \<lceil>real (length universe) / real_of_int workers\<rceil>) \<and>
         nb_items_threshold
           \<le> max nb_items_threshold \<lceil>real (length universe) / real_of_int workers\<rceil> \<and>
         (\<forall>chunk \<in> set (butlast (split_list_into_chunks universe
              (max nb_items_threshold \<lceil>real (length universe) / real_of_int workers\<rceil>))).
            int (length chunk)
              = max nb_items_threshold \<lceil>real (length universe) / real_of_int workers\<rceil>)"
proof (intro conjI)
  from assms have w0: "workers \<noteq> 0" by simp
  let ?size = "max nb_items_threshold \<lceil>real (length universe) / real_of_int workers\<rceil>"
  show "thread_chunk_size workers universe nb_items_threshold = Inr ?size"
    by (rule thread_chunk_size_eq [OF w0])
  show "process_chunk_size universe nb_items_threshold workers = Inr ?size"
    by (rule process_chunk_size_eq [OF assms])
  show "nb_items_threshold \<le> ?size" by simp
  show "\<forall>chunk \<in> set (butlast (split_list_into_chunks universe ?size)).
          int (length chunk) = ?size"
  proof (cases "universe = []")
    case True
    then show ?thesis by simp
  next
    case False
    then have "1 \<le> \<lceil>real (length universe) / real_of_int workers\<rceil>"
      using assms by (intro ceiling_quotient_pos) simp_all
    then have "max 1 ?size = ?size" by (rule max_one_max)
    with split_butlast_length [of universe ?size] show ?thesis by simp
  qed
qed

text \<open>Claim C5 for 37 items and 4 workers, with thresholds 5 and 800.\<close>

theorem chunk_size_policy_witness:
  "(0::int) < 4 \<and>
   thread_chunk_size 4 (replicate 37 ''RIC'') 5 = Inr 10 \<and>
   process_chunk_size (replicate 37 ''RIC'') 5 4 = Inr 10 \<and>
   (5::int) \<le> 10 \<and>
   map length (split_list_into_chunks (replicate 37 ''RIC'') 10) = [10, 10, 10, 7] \<and>
   thread_chunk_size 4 (replicate 37 ''RIC'') 800 = Inr 800"
proof -
  have c: "\<lceil>real (length (replicate 37 ''RIC'')) / real_of_int 4\<rceil> = 10"
    by (simp add: ceiling_eq_iff)
  have l: "map length (split_list_into_chunks (replicate 37 ''RIC'') 10) = [10, 10, 10, 7]"
    by (simp add: split_list_into_chunks_def py_range.simps py_slice_def)
  from chunk_size_policy [of 4 "replicate 37 ''RIC''" 5]
       chunk_size_policy [of 4 "replicate 37 ''RIC''" 800] c l
  show ?thesis by simp
qed

lemma strategies_rows:
  assumes "0 < max_workers" and "0 < nb_workers" and "0 < nb_workers'"
      and "session_calls_succeed b"
      and "\<forall>s chunk p. fst (get_data b s chunk flds p) = Inr (map (row flds p) chunk)"
  shows "fst (internal_get_data b universe flds parameters False w)
           = Some (map (row flds parameters) universe)"
    and "fst (threadPoolExecutor_get_data max_workers b universe flds parameters
                nb_items_threshold False w)
           = Inr (map (row flds parameters) universe)"
    and "fst (processPoolExecutor_get_data b universe flds parameters nb_items_threshold'
                nb_workers w)
           = Inr (Some (if length (split_list_into_chunks universe
                              (max nb_items_threshold'
                                 \<lceil>real (length universe) / real_of_int nb_workers\<rceil>)) < 2
                        then map (row flds []) universe
                        else map (row flds parameters) universe))"
    and "fst (hybridPoolExecutor_get_data max_workers b universe flds parameters
                nb_items_threshold'' nb_workers' w)
           = Inr (map (row flds parameters) universe)"
proof -
  let ?fetch = "\<lambda>chunk. Inr (map (row flds parameters) chunk) :: exn + 'b list"
  from assms(1) have mw0: "max_workers \<noteq> 0" by simp
  have rows: "concat (map (\<lambda>chunk. rows_of (?fetch chunk)) (split_list_into_chunks x n))
              = map (row flds parameters) x" for x :: "ident list" and n
  proof -
    have "concat (map (\<lambda>chunk. rows_of (?fetch chunk)) (split_list_into_chunks x n))
          = map (row flds parameters) (concat (split_list_into_chunks x n))"
      by (simp add: rows_of_def map_concat)
    then show ?thesis by (simp only: concat_split)
  qed
  have "fst (internal_get_data b universe flds parameters False w)
          = Some (rows_of (?fetch universe))"
    by (rule internal_get_data_constant) (simp_all add: assms(5))
  then show "fst (internal_get_data b universe flds parameters False w)
               = Some (map (row flds parameters) universe)"
    by (simp add: rows_of_def)
  have "fst (threadPoolExecutor_get_data max_workers b universe flds parameters
               nb_items_threshold False w)
        = Inr (concat (map (\<lambda>chunk. rows_of (?fetch chunk))
                 (split_list_into_chunks universe
                    (max nb_items_threshold
                       \<lceil>real (length universe) / real_of_int max_workers\<rceil>))))"
    by (rule thread_results [OF mw0]) (simp_all add: assms(5))
  then show "fst (threadPoolExecutor_get_data max_workers b universe flds parameters
                    nb_items_threshold False w) = Inr (map (row flds parameters) universe)"
    by (simp only: rows)
  have "fst (processPoolExecutor_get_data b universe flds parameters nb_items_threshold'
               nb_workers w)
        = Inr (Some
             (let universe_list = split_list_into_chunks universe
                    (max nb_items_threshold' \<lceil>real (length universe) / real_of_int nb_workers\<rceil>)
              in if length universe_list < 2
                 then rows_of (Inr (map (row flds []) universe) :: exn + 'b list)
                 else concat (map (\<lambda>chunk. rows_of (?fetch chunk)) universe_list)))"
    by (rule process_results [OF assms(2,4)]) (simp_all add: assms(5))
  then show "fst (processPoolExecutor_get_data b universe flds parameters nb_items_threshold'
                nb_workers w)
           = Inr (Some (if length (split_list_into_chunks universe
                              (max nb_items_threshold'
                                 \<lceil>real (length universe) / real_of_int nb_workers\<rceil>)) < 2
                        then map (row flds []) universe
                        else map (row flds parameters) universe))"
    by (simp only: rows Let_def) (simp add: rows_of_def)
  have "fst (hybridPoolExecutor_get_data max_workers b universe flds parameters
               nb_items_threshold'' nb_workers' w)
        = Inr (let thread_rows = (\<lambda>part. concat (map (\<lambda>chunk. rows_of (?fetch chunk))
                       (split_list_into_chunks part
                          (max nb_items_threshold''
                             \<lceil>real (length part) / real_of_int max_workers\<rceil>))));
                    universe_list = split_list_into_chunks universe
                       (max nb_items_threshold''
                          \<lceil>real (length universe) / real_of_int nb_workers'\<rceil>)
                in if length universe_list < 2 then thread_rows universe
                   else concat (map thread_rows universe_list))"
    by (rule hybrid_results [OF assms(3) mw0 assms(4)]) (simp add: assms(5))
  moreover have "concat (map (map (row flds parameters)) (split_list_into_chunks universe n))
                 = map (row flds parameters) universe" for n
    using rows [of universe n] by (simp add: rows_of_def)
  ultimately show "fst (hybridPoolExecutor_get_data max_workers b universe flds parameters
                          nb_items_threshold'' nb_workers' w)
                   = Inr (map (row flds parameters) universe)"
    by (simp add: rows Let_def)
qed

lemma parameter_backend_rows:
  "\<forall>s chunk p. fst (get_data parameter_backend s chunk flds p)
     = Inr (map (\<lambda>i. (i, flds, p)) chunk)"
  by (simp add: parameter_backend_def)

lemma parameter_backend_sessions: "session_calls_succeed parameter_backend"
  by (simp add: session_calls_succeed_def parameter_backend_def)

text \<open>
  Claim C6 requires every strategy to return the table of the direct fetch. With a
  backend that answers with one row per identifier, the direct fetch, the thread
  strategy and the hybrid strategy do; \<^verbatim>\<open>processPoolExecutor_get_data\<close> does not when
  its partition has fewer than two chunks and the caller passed parameters: it then
  calls \<^verbatim>\<open>internal_get_data(universe=universe, fields=fields)\<close>, leaving the parameters
  out, where its own dispatch and the fallback of the hybrid strategy pass them. For
  the universe \<^verbatim>\<open>['A']\<close>, the field \<^verbatim>\<open>F\<close>, the parameters \<^verbatim>\<open>{'Curn': 'EUR'}\<close>, a
  threshold of 800 and 2 processes, the three other strategies return the row fetched
  with the parameters and the process strategy the row fetched without them.
\<close>

theorem processPoolExecutor_drops_parameters:
  "fst (internal_get_data parameter_backend [''A''] [''F''] [(''Curn'', ''EUR'')] False
          initial_world)
     = Some [(''A'', [''F''], [(''Curn'', ''EUR'')])] \<and>
   fst (threadPoolExecutor_get_data 8 parameter_backend [''A''] [''F''] [(''Curn'', ''EUR'')]
          800 False initial_world)
     = Inr [(''A'', [''F''], [(''Curn'', ''EUR'')])] \<and>
   fst (hybridPoolExecutor_get_data 8 parameter_backend [''A''] [''F''] [(''Curn'', ''EUR'')]
          800 2 initial_world)
     = Inr [(''A'', [''F''], [(''Curn'', ''EUR'')])] \<and>
   fst (processPoolExecutor_get_data parameter_backend [''A''] [''F''] [(''Curn'', ''EUR'')]
          800 2 initial_world)
     = Inr (Some [(''A'', [''F''], [])])"
proof -
  have p: "(0::int) < 8" "(0::int) < 2" by simp_all
  have l: "length (split_list_into_chunks [''A'']
             (max 800 \<lceil>real (length [''A'']) / real_of_int 2\<rceil>)) < 2"
    by (simp add: split_list_into_chunks_def py_range.simps)
  note R = strategies_rows [where row = "\<lambda>f p i. (i, f, p)" and b = parameter_backend
             and universe = "[''A'']" and flds = "[''F'']"
             and parameters = "[(''Curn'', ''EUR'')]" and w = initial_world
             and max_workers = 8 and nb_workers = 2 and nb_workers' = 2,
             OF p(1) p(2) p(2) parameter_backend_sessions parameter_backend_rows]
  show ?thesis
    using R l by simp
qed



text \<open>
  Claim C8. The partition of the empty universe has no chunk, whatever the chunk size;
  the collecting loop over no result leaves the empty table and raises nothing; so the
  thread strategy on the empty universe returns the empty table without a fetch.
\<close>

theorem empty_universe:
  "split_list_into_chunks ([] :: 'a list) nb_chunks = [] \<and>
   for_result ([] :: 'r list) [] = (None, []) \<and>
   (max_workers \<noteq> 0 \<longrightarrow>
      fst (threadPoolExecutor_get_data max_workers (b :: ('s, 'r) backend) [] flds parameters
             nb_items_threshold False w) = Inr [] \<and>
      get_data_calls (trace (snd (threadPoolExecutor_get_data max_workers b [] flds parameters
                                    nb_items_threshold False w)))
        = get_data_calls (trace w))"
  by (simp add: threadPoolExecutor_get_data_def thread_chunk_size_eq Let_def)

text \<open>Claim C8 for four threads and a threshold of 800.\<close>

theorem empty_universe_witness:
  "(4::int) \<noteq> 0 \<and>
   split_list_into_chunks ([] :: ident list) 800 = [] \<and>
   fst (threadPoolExecutor_get_data 4 (fake_backend 0 []) [] [''F''] [] 800 False initial_world)
     = Inr [] \<and>
   get_data_calls (trace (snd (threadPoolExecutor_get_data 4 (fake_backend 0 []) [] [''F''] []
                                 800 False initial_world))) = 0"
  using empty_universe [of 800 4 "fake_backend 0 []" "[''F'']" "[]" 800 initial_world]
  by (simp add: initial_world_def)

lemma singleton_slices_from:
  assumes "0 \<le> k"
  shows "map (\<lambda>i. py_slice items i (i + 1)) (py_range k (int (length items)) 1)
         = map (\<lambda>x. [x]) (drop (nat k) items)"
  using assms
proof (induction k "int (length items)" "1::int" rule: py_range.induct)
  case (1 start)
  show ?case
  proof (cases "start < int (length items)")
    case False
    with "1.prems" show ?thesis by (simp add: py_range_stop)
  next
    case True
    have eq: "py_range start (int (length items)) 1
                = start # py_range (start + 1) (int (length items)) 1"
      using True by (intro py_range_step) simp_all
    have ih: "map (\<lambda>i. py_slice items i (i + 1)) (py_range (start + 1) (int (length items)) 1)
              = map (\<lambda>x. [x]) (drop (nat (start + 1)) items)"
      using "1.hyps" "1.prems" True by simp
    have lt: "nat start < length items" using True "1.prems" by simp
    have sl: "py_slice items start (start + 1) = [items ! nat start]"
      using "1.prems" lt by (simp add: py_slice_def nat_add_distrib take_Suc_conv_app_nth
            hd_drop_conv_nth take_Suc)
    have dr: "drop (nat start) items = items ! nat start # drop (nat (start + 1)) items"
      using "1.prems" lt by (simp add: nat_add_distrib Cons_nth_drop_Suc)
    show ?thesis
      by (simp only: eq list.map sl ih dr)
  qed
qed

lemma split_nonpositive:
  "nb_chunks \<le> 0 \<Longrightarrow> split_list_into_chunks items nb_chunks = map (\<lambda>x. [x]) items"
  using singleton_slices_from [of 0 items]
  by (simp add: split_list_into_chunks_def Let_def max_def)

text \<open>
  Claim C9, as stated, fails. A worker count of zero is not clamped:
  \<^verbatim>\<open>processPoolExecutor_get_data\<close> raises the \<^verbatim>\<open>ValueError\<close> of the executor's
  constructor.
\<close>

theorem processPoolExecutor_zero_workers_counterexample:
  "processPoolExecutor_get_data (fake_backend 0 []) [''A'', ''B''] [''F''] [] 1 0 initial_world
   = (Inl (ValueError ''max_workers must be greater than 0''), initial_world)"
  by (simp add: processPoolExecutor_get_data_def process_chunk_size_raises)

text \<open>
  Claim C9, amended. A chunk size of zero or less is clamped to 1 by
  \<^verbatim>\<open>__split_list_into_chunks\<close>, which then returns the items one per chunk; a worker
  count of zero or less is not clamped: the process and hybrid strategies raise
  \<^verbatim>\<open>ValueError\<close> before any fetch.
\<close>

theorem clamping_of_configuration:
  "(nb_chunks \<le> 0 \<longrightarrow> split_list_into_chunks items nb_chunks = map (\<lambda>x. [x]) items) \<and>
   (nb_workers \<le> 0 \<longrightarrow>
      processPoolExecutor_get_data b universe flds parameters nb_items_threshold nb_workers w
        = (Inl (ValueError ''max_workers must be greater than 0''), w) \<and>
      hybridPoolExecutor_get_data max_workers b universe flds parameters nb_items_threshold
          nb_workers w
        = (Inl (ValueError ''max_workers must be greater than 0''), w))"
  by (simp add: split_nonpositive processPoolExecutor_get_data_def
        hybridPoolExecutor_get_data_def process_chunk_size_raises)

text \<open>The amended claim C9 for a chunk size of -3 and a worker count of -1.\<close>

theorem clamping_of_configuration_witness:
  "(-3::int) \<le> 0 \<and> (-1::int) \<le> 0 \<and>
   split_list_into_chunks [''A'', ''B''] (-3) = [[''A''], [''B'']] \<and>
   processPoolExecutor_get_data (fake_backend 0 []) [''A'', ''B''] [''F''] [] 1 (-1)
       initial_world
     = (Inl (ValueError ''max_workers must be greater than 0''), initial_world) \<and>
   hybridPoolExecutor_get_data 4 (fake_backend 0 []) [''A'', ''B''] [''F''] [] 1 (-1)
       initial_world
     = (Inl (ValueError ''max_workers must be greater than 0''), initial_world)"
  using clamping_of_configuration [of "-3" "[''A'', ''B'']" "-1" "fake_backend 0 []"
          "[''A'', ''B'']" "[''F'']" "[]" 1 initial_world 4]
  by simp

end
